theory Spec2Isabelle
  imports Complex_Main "HOL-Library.List_Lexorder" "HOL-Library.Char_ord"
begin

unbundle bit_operations_syntax

section \<open>Python values, errors and integers\<close>

text \<open>
  Every \<^verbatim>\<open>raise\<close> of \<^verbatim>\<open>amoco/cas/expressions.py\<close> (and every exception of the Python
  runtime the modelled code can meet) is a value of \<open>error\<close>; a function that can raise
  returns \<open>error + 'a\<close>.  \<open>OutOfFuel\<close> is not a Python exception: it is the answer of
  the bounded recursion \<open>run\<close> below when its depth bound is reached.
\<close>

datatype error =
    ValueError | TypeError | AttributeError | AssertionError | ZeroDivisionError
  | KeyError | IndexError | NotImplementedError | RecursionError | OutOfFuel

definition bnd :: "error + 'a \<Rightarrow> ('a \<Rightarrow> error + 'b) \<Rightarrow> error + 'b" where
  "bnd m f = (case m of Inl e \<Rightarrow> Inl e | Inr x \<Rightarrow> f x)"

lemma bnd_Inl [simp]: "bnd (Inl e) f = Inl e"
  by (simp add: bnd_def)

lemma bnd_Inr [simp]: "bnd (Inr x) f = f x"
  by (simp add: bnd_def)

lemma bnd_cong [fundef_cong]:
  "m = m' \<Longrightarrow> (\<And>x. m' = Inr x \<Longrightarrow> f x = f' x) \<Longrightarrow> bnd m f = bnd m' f'"
  by (cases m') (simp_all add: bnd_def)

text \<open>Python's \<^verbatim>\<open>x << n\<close> and \<^verbatim>\<open>x >> n\<close> on unbounded integers: a negative count raises.\<close>

definition py_shl :: "int \<Rightarrow> int \<Rightarrow> error + int" where
  "py_shl x n = (if n < 0 then Inl ValueError else Inr (push_bit (nat n) x))"

definition py_shr :: "int \<Rightarrow> int \<Rightarrow> error + int" where
  "py_shr x n = (if n < 0 then Inl ValueError else Inr (drop_bit (nat n) x))"

section \<open>Expression nodes\<close>

text \<open>
  The operator symbols \<^verbatim>\<open>OP_ADD\<close> .. \<^verbatim>\<open>OP_ROL\<close> (a closed set: \<^verbatim>\<open>_operator.__init__\<close>
  raises \<^verbatim>\<open>NotImplementedError\<close> on anything else).
\<close>

datatype opsym =
    OP_ADD | OP_MIN | OP_MUL | OP_MUL2 | OP_DIV | OP_MOD
  | OP_AND | OP_OR | OP_XOR | OP_NOT
  | OP_EQ | OP_NEQ | OP_LE | OP_GE | OP_GEU | OP_LT | OP_LTU | OP_GT
  | OP_LSL | OP_LSR | OP_ASR | OP_ROR | OP_ROL

type_synonym key = "int \<times> int"

text \<open>
  One constructor per class of the module; the fields are the instance attributes, in the
  order given.  All Python integers are \<open>int\<close>.
  \<^item> \<open>Void size sf\<close>: a plain \<^verbatim>\<open>exp(size)\<close> (etype 0, "undefined");
  \<^item> \<open>Top size sf\<close>: \<^verbatim>\<open>top(size)\<close>;
  \<^item> \<open>Cst v size sf\<close>, \<open>Sym ref v size sf\<close>: \<^verbatim>\<open>cst\<close> and its subclass \<^verbatim>\<open>sym\<close>;
  \<^item> \<open>Reg ref size sf regtype subrefs\<close>: \<^verbatim>\<open>reg\<close>, etype \<^verbatim>\<open>et_reg | regtype\<close>;
  \<^item> \<open>Ext ref size sf\<close>, \<open>Lab ref size sf\<close>: \<^verbatim>\<open>ext\<close> and \<^verbatim>\<open>lab\<close>;
  \<^item> \<open>Comp size sf parts smask\<close>: \<^verbatim>\<open>comp\<close>; \<^verbatim>\<open>parts\<close> is a dict, kept as an association
    list in insertion order; \<^verbatim>\<open>smask\<close> is the list of owning keys, \<^verbatim>\<open>None\<close> for an unowned bit;
  \<^item> \<open>Mem a size sf mods endian\<close>: \<^verbatim>\<open>mem\<close>;
  \<^item> \<open>Ptr base disp seg size sf\<close>: \<^verbatim>\<open>ptr\<close>;
  \<^item> \<open>Slc x pos size sf ref etype\<close>: \<^verbatim>\<open>slc\<close> (its etype is an instance attribute);
  \<^item> \<open>Tst tst l r size sf\<close>: \<^verbatim>\<open>tst\<close>;
  \<^item> \<open>Op op l r prop size sf\<close>, \<open>Uop op r prop size sf\<close>: \<^verbatim>\<open>op\<close> and \<^verbatim>\<open>uop\<close>;
  \<^item> \<open>Vec l size sf\<close>, \<open>Vecw l size sf\<close>: \<^verbatim>\<open>vec\<close> and \<^verbatim>\<open>vecw\<close>.
  The floating-point constant \<^verbatim>\<open>cfp\<close> is not modelled.
\<close>

datatype exp =
    Void int bool
  | Top int bool
  | Cst int int bool
  | Sym string int int bool
  | Reg string int bool int "(key \<times> string) list"
  | Ext string int bool
  | Lab string int bool
  | Comp int bool "(key \<times> exp) list" "key option list"
  | Mem exp int bool "(exp \<times> exp) list" int
  | Ptr exp int "exp option" int bool
  | Slc exp int int bool "string option" int
  | Tst exp exp exp int bool
  | Op opsym exp exp int int bool
  | Uop opsym exp int int bool
  | Vec "exp list" int bool
  | Vecw "exp list" int bool

text \<open>The attribute \<^verbatim>\<open>size\<close>.\<close>

fun size_of :: "exp \<Rightarrow> int" where
  "size_of (Void n sf) = n"
| "size_of (Top n sf) = n"
| "size_of (Cst v n sf) = n"
| "size_of (Sym ref v n sf) = n"
| "size_of (Reg ref n sf rt sr) = n"
| "size_of (Ext ref n sf) = n"
| "size_of (Lab ref n sf) = n"
| "size_of (Comp n sf parts smask) = n"
| "size_of (Mem a n sf mods endian) = n"
| "size_of (Ptr base disp seg n sf) = n"
| "size_of (Slc x pos n sf ref et) = n"
| "size_of (Tst t l r n sf) = n"
| "size_of (Op opr l r prop n sf) = n"
| "size_of (Uop opr r prop n sf) = n"
| "size_of (Vec l n sf) = n"
| "size_of (Vecw l n sf) = n"

text \<open>The attribute \<^verbatim>\<open>sf\<close>, and the assignment \<^verbatim>\<open>x.sf = b\<close>.\<close>

fun sf_of :: "exp \<Rightarrow> bool" where
  "sf_of (Void n sf) = sf"
| "sf_of (Top n sf) = sf"
| "sf_of (Cst v n sf) = sf"
| "sf_of (Sym ref v n sf) = sf"
| "sf_of (Reg ref n sf rt sr) = sf"
| "sf_of (Ext ref n sf) = sf"
| "sf_of (Lab ref n sf) = sf"
| "sf_of (Comp n sf parts smask) = sf"
| "sf_of (Mem a n sf mods endian) = sf"
| "sf_of (Ptr base disp seg n sf) = sf"
| "sf_of (Slc x pos n sf ref et) = sf"
| "sf_of (Tst t l r n sf) = sf"
| "sf_of (Op opr l r prop n sf) = sf"
| "sf_of (Uop opr r prop n sf) = sf"
| "sf_of (Vec l n sf) = sf"
| "sf_of (Vecw l n sf) = sf"

fun set_sf :: "bool \<Rightarrow> exp \<Rightarrow> exp" where
  "set_sf b (Void n sf) = Void n b"
| "set_sf b (Top n sf) = Top n b"
| "set_sf b (Cst v n sf) = Cst v n b"
| "set_sf b (Sym ref v n sf) = Sym ref v n b"
| "set_sf b (Reg ref n sf rt sr) = Reg ref n b rt sr"
| "set_sf b (Ext ref n sf) = Ext ref n b"
| "set_sf b (Lab ref n sf) = Lab ref n b"
| "set_sf b (Comp n sf parts smask) = Comp n b parts smask"
| "set_sf b (Mem a n sf mods endian) = Mem a n b mods endian"
| "set_sf b (Ptr base disp seg n sf) = Ptr base disp seg n b"
| "set_sf b (Slc x pos n sf ref et) = Slc x pos n b ref et"
| "set_sf b (Tst t l r n sf) = Tst t l r n b"
| "set_sf b (Op opr l r prop n sf) = Op opr l r prop n b"
| "set_sf b (Uop opr r prop n sf) = Uop opr r prop n b"
| "set_sf b (Vec l n sf) = Vec l n b"
| "set_sf b (Vecw l n sf) = Vecw l n b"

subsection \<open>Expression types\<close>

definition et_cst :: int where "et_cst = 0x00001"
definition et_reg :: int where "et_reg = 0x00002"
definition et_slc :: int where "et_slc = 0x00100"
definition et_ext :: int where "et_ext = 0x00200"
definition et_lab :: int where "et_lab = 0x00400"
definition et_mem :: int where "et_mem = 0x00800"
definition et_ptr :: int where "et_ptr = 0x01000"
definition et_tst :: int where "et_tst = 0x02000"
definition et_eqn :: int where "et_eqn = 0x04000"
definition et_vec :: int where "et_vec = 0x08000"
definition et_cmp :: int where "et_cmp = 0x10000"
definition et_msk :: int where "et_msk = 0x3FFFF"

definition regtype_OTHER :: int where "regtype_OTHER = 0x80"

text \<open>
  The class (or instance) attribute \<^verbatim>\<open>etype\<close>: \<^verbatim>\<open>top.etype = -et_msk - 1\<close>,
  \<^verbatim>\<open>vecw.etype = ~(~et_vec & et_msk)\<close>, \<^verbatim>\<open>reg.etype = et_reg | regtype\<close>,
  \<^verbatim>\<open>ext.etype = et_ext | et_reg | regtype.OTHER\<close>, \<^verbatim>\<open>lab.etype = ext.etype | et_lab\<close>.
\<close>

fun etype :: "exp \<Rightarrow> int" where
  "etype (Void n sf) = 0"
| "etype (Top n sf) = - et_msk - 1"
| "etype (Cst v n sf) = et_cst"
| "etype (Sym ref v n sf) = et_cst"
| "etype (Reg ref n sf rt sr) = et_reg OR rt"
| "etype (Ext ref n sf) = et_ext OR et_reg OR regtype_OTHER"
| "etype (Lab ref n sf) = et_ext OR et_reg OR regtype_OTHER OR et_lab"
| "etype (Comp n sf parts smask) = et_cmp"
| "etype (Mem a n sf mods endian) = et_mem"
| "etype (Ptr base disp seg n sf) = et_ptr"
| "etype (Slc x pos n sf ref et) = et"
| "etype (Tst t l r n sf) = et_tst"
| "etype (Op opr l r prop n sf) = et_eqn"
| "etype (Uop opr r prop n sf) = et_eqn"
| "etype (Vec l n sf) = et_vec"
| "etype (Vecw l n sf) = NOT (NOT et_vec AND et_msk)"

definition is_def :: "exp \<Rightarrow> bool" where "is_def e = (etype e > 0)"
definition is_top :: "exp \<Rightarrow> bool" where "is_top e = (etype e < 0)"
definition is_cst :: "exp \<Rightarrow> bool" where "is_cst e = (et_cst AND etype e \<noteq> 0)"
definition is_reg :: "exp \<Rightarrow> bool" where "is_reg e = (et_reg AND etype e \<noteq> 0)"
definition is_cmp :: "exp \<Rightarrow> bool" where "is_cmp e = (et_cmp AND etype e \<noteq> 0)"
definition is_slc :: "exp \<Rightarrow> bool" where "is_slc e = (et_slc AND etype e \<noteq> 0)"
definition is_mem :: "exp \<Rightarrow> bool" where "is_mem e = (et_mem AND etype e \<noteq> 0)"
definition is_ext :: "exp \<Rightarrow> bool" where "is_ext e = (et_ext AND etype e \<noteq> 0)"
definition is_lab :: "exp \<Rightarrow> bool" where "is_lab e = (et_lab AND etype e \<noteq> 0)"
definition is_ptr :: "exp \<Rightarrow> bool" where "is_ptr e = (et_ptr AND etype e \<noteq> 0)"
definition is_tst :: "exp \<Rightarrow> bool" where "is_tst e = (et_tst AND etype e \<noteq> 0)"
definition is_eqn :: "exp \<Rightarrow> bool" where "is_eqn e = (et_eqn AND etype e \<noteq> 0)"
definition is_vec :: "exp \<Rightarrow> bool" where "is_vec e = (et_vec AND etype e \<noteq> 0)"

section \<open>Constants\<close>

text \<open>The property \<^verbatim>\<open>exp.mask\<close>: \<^verbatim>\<open>(1 << self.size) - 1\<close>.\<close>

definition mask_of :: "int \<Rightarrow> error + int" where
  "mask_of n = bnd (py_shl 1 n) (\<lambda>m. Inr (m - 1))"

text \<open>
  \<^verbatim>\<open>cst.__init__(v, size)\<close> for an integer \<open>v\<close>: the sign flag records whether \<open>v\<close> was
  negative, the stored pattern is \<^verbatim>\<open>v & self.mask\<close>.  \<open>cst_bool\<close> is the branch for a Python
  \<^verbatim>\<open>bool\<close>, which forces the size to 1.
\<close>

definition cst :: "int \<Rightarrow> int \<Rightarrow> error + exp" where
  "cst v n = bnd (mask_of n) (\<lambda>m. Inr (Cst (v AND m) n (v < 0)))"

definition cst_bool :: "bool \<Rightarrow> exp" where
  "cst_bool b = Cst ((if b then 1 else 0) AND 1) 1 False"

definition bit0 :: exp where "bit0 = Cst 0 1 False"
definition bit1 :: exp where "bit1 = Cst 1 1 False"

text \<open>
  The property \<^verbatim>\<open>cst.value\<close>, on the fields \<open>v\<close>, \<open>size\<close>, \<open>sf\<close>:
  \<^verbatim>\<open>if self.sf and (self.v >> (self.size - 1) == 1): return -(self.v ^ self.mask) - 1\<close>.
  Python's \<^verbatim>\<open>and\<close> evaluates the shift only when \<open>sf\<close> is set.
\<close>

definition value_of :: "int \<Rightarrow> int \<Rightarrow> bool \<Rightarrow> error + int" where
  "value_of v n sf =
     (if sf then
        bnd (py_shr v (n - 1)) (\<lambda>t.
          if t = 1 then bnd (mask_of n) (\<lambda>m. Inr (- (v XOR m) - 1)) else Inr v)
      else Inr v)"

text \<open>The fields \<^verbatim>\<open>v\<close> of a constant or symbol, and \<^verbatim>\<open>.value\<close> on an expression.\<close>

fun v_of :: "exp \<Rightarrow> error + int" where
  "v_of (Cst v n sf) = Inr v"
| "v_of (Sym ref v n sf) = Inr v"
| "v_of e = Inl AttributeError"

fun cst_value :: "exp \<Rightarrow> error + int" where
  "cst_value (Cst v n sf) = value_of v n sf"
| "cst_value (Sym ref v n sf) = value_of v n sf"
| "cst_value e = Inl AttributeError"

text \<open>
  \<^verbatim>\<open>cst.zeroextend(size)\<close> and \<^verbatim>\<open>cst.signextend(size)\<close>.  \<^verbatim>\<open>signextend\<close> sets the sign
  flag, reads \<^verbatim>\<open>value\<close> and restores the flag: the receiver is unchanged when it returns.
  Called on a \<^verbatim>\<open>sym\<close> they build a plain \<^verbatim>\<open>cst\<close>.
\<close>

definition cst_zeroextend :: "exp \<Rightarrow> int \<Rightarrow> error + exp" where
  "cst_zeroextend c n = bnd (v_of c) (\<lambda>v. cst v (max n (size_of c)))"

definition cst_signextend :: "exp \<Rightarrow> int \<Rightarrow> error + exp" where
  "cst_signextend c n = bnd (cst_value (set_sf True c)) (\<lambda>v. cst v (max n (size_of c)))"

section \<open>Boolean coercion\<close>

text \<open>
  \<^verbatim>\<open>__bool__\<close>: \<^verbatim>\<open>exp.__bool__\<close> returns \<^verbatim>\<open>False\<close>; \<^verbatim>\<open>cst.__bool__\<close> (inherited by \<^verbatim>\<open>sym\<close>)
  returns \<^verbatim>\<open>self.size == 1 and self.v == 1\<close>; \<^verbatim>\<open>vec.__bool__\<close> returns
  \<^verbatim>\<open>all([e.__bool__() for e in self.l])\<close>.  No other class overrides it (\<^verbatim>\<open>vecw\<close> derives
  from \<^verbatim>\<open>top\<close>, not from \<^verbatim>\<open>vec\<close>).
\<close>

fun bool_of :: "exp \<Rightarrow> bool" where
  "bool_of (Cst v n sf) = (n = 1 \<and> v = 1)"
| "bool_of (Sym ref v n sf) = (n = 1 \<and> v = 1)"
| "bool_of (Vec l n sf) = list_all bool_of l"
| "bool_of e = False"

text \<open>
  \<^verbatim>\<open>vec.__init__(l)\<close>: the size is the largest member size, every member must have it,
  the sign flag is set when any member's is.  \<^verbatim>\<open>vecw.__init__(v)\<close> copies the list and size.
\<close>

definition vec_init :: "exp list \<Rightarrow> error + exp" where
  "vec_init l =
     (let size = fold (\<lambda>e s. if size_of e > s then size_of e else s) l 0 in
      if list_ex (\<lambda>e. size_of e \<noteq> size) l then Inl ValueError
      else Inr (Vec l size (list_ex sf_of l)))"

fun l_of :: "exp \<Rightarrow> error + exp list" where
  "l_of (Vec l n sf) = Inr l"
| "l_of (Vecw l n sf) = Inr l"
| "l_of e = Inl AttributeError"

definition vecw_init :: "exp \<Rightarrow> error + exp" where
  "vecw_init v = bnd (l_of v) (\<lambda>l. Inr (Vecw l (size_of v) False))"

section \<open>Conditional construction\<close>








section \<open>Configuration and printed forms\<close>

text \<open>
  The module reads two things it does not define: the threshold \<^verbatim>\<open>conf.Cas.complexity\<close>
  (\<^verbatim>\<open>amoco.config\<close>) and the strings of \<^verbatim>\<open>render.icons\<close> (\<^verbatim>\<open>amoco.ui.render\<close>).  They are
  parameters of the model.  \<^verbatim>\<open>depth()\<close> returns a Python float; the model computes with
  exact rationals and a separate infinity.
\<close>

record config =
  complexity :: rat
  icon_top :: string
  icon_bot :: string
  icon_dots :: string
  icon_op :: "opsym \<Rightarrow> string"

subsection \<open>Formatting integers\<close>

definition digit_char :: "nat \<Rightarrow> char" where
  "digit_char d = ''0123456789abcdef'' ! d"

function str_nat :: "nat \<Rightarrow> nat \<Rightarrow> string" where
  "str_nat b n = (if b < 2 \<or> n < b then [digit_char n]
                  else str_nat b (n div b) @ [digit_char (n mod b)])"
  by pat_completeness auto
termination
  by (relation "measure (\<lambda>(b, n). n)") auto

text \<open>\<^verbatim>\<open>"%d" % i\<close>, \<^verbatim>\<open>"%+d" % i\<close> and \<^verbatim>\<open>"{:#x}".format(i)\<close>.\<close>

definition fmt_d :: "int \<Rightarrow> string" where
  "fmt_d i = (if i < 0 then ''-'' @ str_nat 10 (nat (- i)) else str_nat 10 (nat i))"

definition fmt_plus_d :: "int \<Rightarrow> string" where
  "fmt_plus_d i = (if i < 0 then ''-'' @ str_nat 10 (nat (- i)) else ''+'' @ str_nat 10 (nat i))"

definition fmt_hex :: "int \<Rightarrow> string" where
  "fmt_hex i = (if i < 0 then ''-0x'' @ str_nat 16 (nat (- i)) else ''0x'' @ str_nat 16 (nat i))"

subsection \<open>Dictionaries in insertion order\<close>

definition dict_has :: "('k \<times> 'v) list \<Rightarrow> 'k \<Rightarrow> bool" where
  "dict_has d k = (k \<in> fst ` set d)"

definition dict_get :: "('k \<times> 'v) list \<Rightarrow> 'k \<Rightarrow> error + 'v" where
  "dict_get d k = (case map_of d k of None \<Rightarrow> Inl KeyError | Some v \<Rightarrow> Inr v)"

text \<open>\<^verbatim>\<open>d[k] = v\<close> keeps the position of an existing key and appends a new one.\<close>

definition dict_set :: "('k \<times> 'v) list \<Rightarrow> 'k \<Rightarrow> 'v \<Rightarrow> ('k \<times> 'v) list" where
  "dict_set d k v =
     (if dict_has d k then map (\<lambda>(k', v'). if k' = k then (k', v) else (k', v')) d
      else d @ [(k, v)])"

definition dict_pop :: "('k \<times> 'v) list \<Rightarrow> 'k \<Rightarrow> error + ('v \<times> ('k \<times> 'v) list)" where
  "dict_pop d k =
     (case map_of d k of
        None \<Rightarrow> Inl KeyError
      | Some v \<Rightarrow> Inr (v, filter (\<lambda>(k', v'). k' \<noteq> k) d))"

subsection \<open>Composite iteration\<close>

text \<open>
  \<^verbatim>\<open>comp.__iter__\<close>: the keys sorted by start (\<^verbatim>\<open>list.sort\<close> is stable); each key must
  start where the one before stopped, else the \<^verbatim>\<open>assert\<close> fails when the generator reaches
  it.  \<open>comp_iter f parts\<close> runs a loop body \<open>f\<close> with accumulator over the parts yielded.
\<close>

fun iter_from :: "int \<Rightarrow> (key \<times> 'v) list \<Rightarrow> ('v \<Rightarrow> 'a \<Rightarrow> error + 'a) \<Rightarrow> 'a \<Rightarrow> error + 'a" where
  "iter_from cur [] f acc = Inr acc"
| "iter_from cur ((p, v) # ps) f acc =
     (if fst p \<noteq> cur then Inl AssertionError
      else bnd (f v acc) (iter_from (snd p) ps f))"

definition comp_iter :: "(key \<times> 'v) list \<Rightarrow> ('v \<Rightarrow> 'a \<Rightarrow> error + 'a) \<Rightarrow> 'a \<Rightarrow> error + 'a" where
  "comp_iter parts f acc = iter_from 0 (sort_key (\<lambda>(p, v). fst p) parts) f acc"

subsection \<open>Printed form\<close>

text \<open>
  \<^verbatim>\<open>"%s" % e\<close>, that is \<^verbatim>\<open>__unicode__\<close> of each class.  A composite prints its parts in
  iteration order, with positions counted from the sizes of the parts.
\<close>

definition join :: "string \<Rightarrow> string list \<Rightarrow> string" where
  "join sep xs = (case xs of [] \<Rightarrow> [] | x # r \<Rightarrow> x @ concat (map (\<lambda>y. sep @ y) r))"

fun sequence :: "(error + 'a) list \<Rightarrow> error + 'a list" where
  "sequence [] = Inr []"
| "sequence (m # ms) = bnd m (\<lambda>x. bnd (sequence ms) (\<lambda>xs. Inr (x # xs)))"

definition disp_tostring :: "int \<Rightarrow> string" where
  "disp_tostring d = (if d = 0 then [] else fmt_plus_d d)"

fun str_of :: "config \<Rightarrow> exp \<Rightarrow> error + string" where
  "str_of c (Void n sf) = Inr (icon_bot c @ fmt_d n)"
| "str_of c (Top n sf) = Inr (icon_top c @ fmt_d n)"
| "str_of c (Cst v n sf) = bnd (value_of v n sf) (\<lambda>x. Inr (fmt_hex x))"
| "str_of c (Sym ref v n sf) = Inr (''#'' @ ref)"
| "str_of c (Reg ref n sf rt sr) = Inr ref"
| "str_of c (Ext ref n sf) = Inr (''@'' @ ref)"
| "str_of c (Lab ref n sf) = Inr (''@'' @ ref)"
| "str_of c (Comp n sf parts smask) =
     bnd (comp_iter (map (\<lambda>(k, e). (k, (size_of e, str_of c e))) parts)
            (\<lambda>(sz, m) (s, cur). bnd m (\<lambda>t.
               Inr (s @ '' ['' @ fmt_d cur @ '':'' @ fmt_d (cur + sz) @ '']->'' @ t @ '' |'',
                    cur + sz)))
            (''{ |'', 0))
       (\<lambda>(s, cur). Inr (s @ '' }''))"
| "str_of c (Mem a n sf mods endian) =
     bnd (str_of c a) (\<lambda>sa.
       Inr (''M'' @ fmt_d n
            @ (if length mods > 0 then ''$'' @ fmt_d (int (length mods)) else [])
            @ sa))"
| "str_of c (Ptr base disp seg n sf) =
     bnd (case seg of None \<Rightarrow> Inr [] | Some s \<Rightarrow> str_of c s) (\<lambda>ss.
     bnd (str_of c base) (\<lambda>sb.
       Inr (ss @ ''('' @ sb @ disp_tostring disp @ '')'')))"
| "str_of c (Slc x pos n sf ref et) =
     (case ref of
        Some (ch # r) \<Rightarrow> Inr (ch # r)
      | _ \<Rightarrow> bnd (str_of c x) (\<lambda>sx.
               Inr (sx @ ''['' @ fmt_d pos @ '':'' @ fmt_d (pos + n) @ '']'')))"
| "str_of c (Tst t l r n sf) =
     bnd (str_of c t) (\<lambda>st. bnd (str_of c l) (\<lambda>sl. bnd (str_of c r) (\<lambda>sr.
       Inr (''('' @ st @ '' ? '' @ sl @ '' : '' @ sr @ '')''))))"
| "str_of c (Op opr l r prop n sf) =
     bnd (str_of c l) (\<lambda>sl. bnd (str_of c r) (\<lambda>sr.
       Inr (''('' @ sl @ icon_op c opr @ sr @ '')'')))"
| "str_of c (Uop opr r prop n sf) =
     bnd (str_of c r) (\<lambda>sr. Inr (''('' @ icon_op c opr @ sr @ '')''))"
| "str_of c (Vec l n sf) =
     bnd (sequence (map (str_of c) l)) (\<lambda>ss. Inr (''['' @ join '','' ss @ '']''))"
| "str_of c (Vecw l n sf) =
     bnd (sequence (map (str_of c) l)) (\<lambda>ss.
       Inr (''['' @ join '','' ss @ '', '' @ icon_dots c @ '']''))"

text \<open>\<^verbatim>\<open>slc.raw()\<close>, on the fields of a slice.\<close>

definition slc_raw :: "config \<Rightarrow> exp \<Rightarrow> int \<Rightarrow> int \<Rightarrow> error + string" where
  "slc_raw c x pos n =
     bnd (str_of c x) (\<lambda>sx. Inr (sx @ ''['' @ fmt_d pos @ '':'' @ fmt_d (pos + n) @ '']''))"

text \<open>
  \<^verbatim>\<open>__hash__\<close> is \<^verbatim>\<open>hash("%s" % self) + self.size\<close>, for a slice \<^verbatim>\<open>hash(self.raw())\<close>.  The
  model takes Python's string hash to be injective and free of arithmetic coincidences:
  two hashes are equal exactly when the strings and the added sizes are.
\<close>

fun hash_of :: "config \<Rightarrow> exp \<Rightarrow> error + (string \<times> int)" where
  "hash_of c (Slc x pos n sf ref et) = bnd (slc_raw c x pos n) (\<lambda>s. Inr (s, 0))"
| "hash_of c e = bnd (str_of c e) (\<lambda>s. Inr (s, size_of e))"

section \<open>Attributes\<close>

text \<open>
  Reading an attribute a class does not have raises \<^verbatim>\<open>AttributeError\<close>.  \<^verbatim>\<open>uop.l\<close> is a
  property returning \<^verbatim>\<open>None\<close>: \<open>eqn_l\<close> returns an option.
\<close>

fun a_of :: "exp \<Rightarrow> error + exp" where
  "a_of (Mem a n sf mods endian) = Inr a"
| "a_of e = Inl AttributeError"

fun base_of :: "exp \<Rightarrow> error + exp" where
  "base_of (Ptr base disp seg n sf) = Inr base"
| "base_of e = Inl AttributeError"

fun disp_of :: "exp \<Rightarrow> error + int" where
  "disp_of (Ptr base disp seg n sf) = Inr disp"
| "disp_of e = Inl AttributeError"

fun seg_of :: "exp \<Rightarrow> error + exp option" where
  "seg_of (Ptr base disp seg n sf) = Inr seg"
| "seg_of e = Inl AttributeError"

fun eqn_l :: "exp \<Rightarrow> error + exp option" where
  "eqn_l (Op opr l r prop n sf) = Inr (Some l)"
| "eqn_l (Uop opr r prop n sf) = Inr None"
| "eqn_l (Tst t l r n sf) = Inr (Some l)"
| "eqn_l e = Inl AttributeError"

fun eqn_r :: "exp \<Rightarrow> error + exp" where
  "eqn_r (Op opr l r prop n sf) = Inr r"
| "eqn_r (Uop opr r prop n sf) = Inr r"
| "eqn_r (Tst t l r n sf) = Inr r"
| "eqn_r e = Inl AttributeError"

fun opsym_of :: "exp \<Rightarrow> error + opsym" where
  "opsym_of (Op opr l r prop n sf) = Inr opr"
| "opsym_of (Uop opr r prop n sf) = Inr opr"
| "opsym_of e = Inl AttributeError"

fun unary_of :: "exp \<Rightarrow> error + bool" where
  "unary_of (Op opr l r prop n sf) = Inr False"
| "unary_of (Uop opr r prop n sf) = Inr True"
| "unary_of e = Inl AttributeError"

fun prop_of :: "exp \<Rightarrow> error + int" where
  "prop_of (Op opr l r prop n sf) = Inr prop"
| "prop_of (Uop opr r prop n sf) = Inr prop"
| "prop_of e = Inl AttributeError"

fun parts_of :: "exp \<Rightarrow> error + (key \<times> exp) list" where
  "parts_of (Comp n sf parts smask) = Inr parts"
| "parts_of e = Inl AttributeError"

text \<open>Attribute access through an optional object: \<^verbatim>\<open>None\<close> has no attributes.\<close>

definition the_obj :: "exp option \<Rightarrow> error + exp" where
  "the_obj ob = (case ob of None \<Rightarrow> Inl AttributeError | Some e \<Rightarrow> Inr e)"

section \<open>Depth, symbols and complexity\<close>

text \<open>
  Python floats as far as \<^verbatim>\<open>depth\<close> and \<^verbatim>\<open>complexity\<close> use them: exact rationals, the two
  infinities and not-a-number.
\<close>

datatype pyfloat = Fin rat | PInf | NInf | NaN

fun f_add :: "pyfloat \<Rightarrow> pyfloat \<Rightarrow> pyfloat" where
  "f_add (Fin a) (Fin b) = Fin (a + b)"
| "f_add NaN y = NaN"
| "f_add x NaN = NaN"
| "f_add PInf NInf = NaN"
| "f_add NInf PInf = NaN"
| "f_add PInf y = PInf"
| "f_add x PInf = PInf"
| "f_add NInf y = NInf"
| "f_add x NInf = NInf"

fun f_mul :: "pyfloat \<Rightarrow> rat \<Rightarrow> pyfloat" where
  "f_mul (Fin a) k = Fin (a * k)"
| "f_mul NaN k = NaN"
| "f_mul PInf k = (if k > 0 then PInf else if k < 0 then NInf else NaN)"
| "f_mul NInf k = (if k > 0 then NInf else if k < 0 then PInf else NaN)"

fun f_gt :: "pyfloat \<Rightarrow> rat \<Rightarrow> bool" where
  "f_gt (Fin a) t = (a > t)"
| "f_gt PInf t = True"
| "f_gt NInf t = False"
| "f_gt NaN t = False"

text \<open>Python's \<^verbatim>\<open>max\<close> of two floats keeps the first unless the second is greater.\<close>

fun f_max2 :: "pyfloat \<Rightarrow> pyfloat \<Rightarrow> pyfloat" where
  "f_max2 (Fin a) (Fin b) = (if b > a then Fin b else Fin a)"
| "f_max2 (Fin a) PInf = PInf"
| "f_max2 NInf (Fin b) = Fin b"
| "f_max2 NInf PInf = PInf"
| "f_max2 x y = x"

definition f_max :: "pyfloat list \<Rightarrow> error + pyfloat" where
  "f_max xs = (case xs of [] \<Rightarrow> Inl ValueError | x # r \<Rightarrow> Inr (fold (\<lambda>y m. f_max2 m y) r x))"

text \<open>\<^verbatim>\<open>depth()\<close> of each class.\<close>

fun depth :: "exp \<Rightarrow> error + pyfloat" where
  "depth (Top n sf) = Inr PInf"
| "depth (Vecw l n sf) = Inr PInf"
| "depth (Comp n sf parts smask) =
     comp_iter (map (\<lambda>(k, e). (k, depth e)) parts)
       (\<lambda>m s. bnd m (\<lambda>d. Inr (f_add s d))) (Fin 0)"
| "depth (Slc x pos n sf ref et) = bnd (depth x) (\<lambda>d. Inr (f_mul d 2))"
| "depth (Tst t l r n sf) =
     bnd (depth t) (\<lambda>dt. bnd (depth l) (\<lambda>dl. bnd (depth r) (\<lambda>dr.
       Inr (f_mul (f_add (f_add dt dl) dr) (1 / 3)))))"
| "depth (Op opr l r prop n sf) = bnd (depth l) (\<lambda>dl. bnd (depth r) (\<lambda>dr. Inr (f_add dl dr)))"
| "depth (Uop opr r prop n sf) = depth r"
| "depth (Vec l n sf) =
     (if n = 0 then Inr (Fin 0)
      else bnd (sequence (map depth l)) (\<lambda>ds. bnd (f_max ds) (\<lambda>m.
             Inr (f_mul m (of_nat (length l))))))"
| "depth e = Inr (Fin 1)"

text \<open>
  \<^verbatim>\<open>symbols_of(e)\<close>: the tests on \<^verbatim>\<open>etype\<close> in the source's order.  For the classes whose
  \<^verbatim>\<open>etype\<close> is a class constant the chain is resolved; for a register and a slice, whose
  \<^verbatim>\<open>etype\<close> is an instance attribute, the tests are kept.
\<close>

definition concat_res :: "(error + 'a list) list \<Rightarrow> error + 'a list" where
  "concat_res ms = bnd (sequence ms) (\<lambda>xs. Inr (concat xs))"

fun symbols_of :: "exp \<Rightarrow> error + exp list" where
  "symbols_of (Void n sf) = Inr []"
| "symbols_of (Top n sf) = Inr []"
| "symbols_of (Cst v n sf) = Inr []"
| "symbols_of (Sym ref v n sf) = Inr []"
| "symbols_of (Reg ref n sf rt sr) =
     (if is_cst (Reg ref n sf rt sr) then Inr [] else Inr [Reg ref n sf rt sr])"
| "symbols_of (Ext ref n sf) = Inr [Ext ref n sf]"
| "symbols_of (Lab ref n sf) = Inr [Lab ref n sf]"
| "symbols_of (Mem a n sf mods endian) =
     (case a of Ptr base disp seg pn psf \<Rightarrow> symbols_of base | _ \<Rightarrow> Inl AttributeError)"
| "symbols_of (Ptr base disp seg n sf) = symbols_of base"
| "symbols_of (Op opr l r prop n sf) =
     bnd (symbols_of l) (\<lambda>sl. bnd (symbols_of r) (\<lambda>sr. Inr (sl @ sr)))"
| "symbols_of (Uop opr r prop n sf) = bnd (symbols_of r) (\<lambda>sr. Inr ([] @ sr))"
| "symbols_of (Tst t l r n sf) = concat_res [symbols_of t, symbols_of l, symbols_of r]"
| "symbols_of (Slc x pos n sf ref et) =
     (let e = Slc x pos n sf ref et in
      if is_cst e then Inr []
      else if is_reg e then Inr [e]
      else if is_mem e \<or> is_ptr e \<or> is_eqn e \<or> is_tst e then Inl AttributeError
      else if is_slc e then symbols_of x
      else if is_cmp e \<or> is_vec e then Inl AttributeError
      else if \<not> is_def e then Inr []
      else Inl ValueError)"
| "symbols_of (Comp n sf parts smask) = concat_res (map (\<lambda>(k, e). symbols_of e) parts)"
| "symbols_of (Vec l n sf) = concat_res (map symbols_of l)"
| "symbols_of (Vecw l n sf) = concat_res (map symbols_of l)"

text \<open>\<^verbatim>\<open>complexity(e)\<close>: \<^verbatim>\<open>(e.depth() + len(symbols_of(e))) * factor\<close>.\<close>

definition complexity_of :: "exp \<Rightarrow> error + pyfloat" where
  "complexity_of e =
     bnd (if is_eqn e then prop_of e else Inr 1) (\<lambda>factor.
     bnd (depth e) (\<lambda>d.
     bnd (symbols_of e) (\<lambda>ss.
       Inr (f_mul (f_add d (Fin (of_nat (length ss)))) (of_int factor)))))"

text \<open>The string \<^verbatim>\<open>"".join(["%s" % x for x in symbols_of(e)])\<close> of the lexical ordering.\<close>

definition symbols_str :: "config \<Rightarrow> exp \<Rightarrow> error + string" where
  "symbols_str c e =
     bnd (symbols_of e) (\<lambda>ss. bnd (sequence (map (str_of c) ss)) (\<lambda>xs. Inr (concat xs)))"

section \<open>Lists: indexing and slice assignment\<close>

text \<open>
  \<^verbatim>\<open>l[i]\<close>, \<^verbatim>\<open>l[a:b]\<close> and \<^verbatim>\<open>l[a:b] = new\<close> on a Python list: a negative index counts from the
  end, slice bounds are clipped to the list, and an assigned slice may change the length.
\<close>

definition list_index :: "'a list \<Rightarrow> int \<Rightarrow> error + 'a" where
  "list_index l i =
     (let n = int (length l); j = (if i < 0 then i + n else i) in
      if 0 \<le> j \<and> j < n then Inr (l ! nat j) else Inl IndexError)"

definition slice_bound :: "nat \<Rightarrow> int \<Rightarrow> nat" where
  "slice_bound n i = (if i < 0 then nat (max 0 (i + int n)) else min (nat i) n)"

definition slice_get :: "'a list \<Rightarrow> int \<Rightarrow> int \<Rightarrow> 'a list" where
  "slice_get l a b =
     (let a' = slice_bound (length l) a; b' = max a' (slice_bound (length l) b) in
      take (b' - a') (drop a' l))"

definition slice_assign :: "'a list \<Rightarrow> int \<Rightarrow> int \<Rightarrow> 'a list \<Rightarrow> 'a list" where
  "slice_assign l a b new =
     (let a' = slice_bound (length l) a; b' = max a' (slice_bound (length l) b) in
      take a' l @ new @ drop b' l)"

text \<open>\<^verbatim>\<open>[x] * n\<close>: empty for a negative count.\<close>

definition times :: "'a \<Rightarrow> int \<Rightarrow> 'a list" where
  "times x n = replicate (nat n) x"

section \<open>Composite: construction and restructuring\<close>

text \<open>\<^verbatim>\<open>top(size)\<close> and \<^verbatim>\<open>comp(s)\<close>: \<^verbatim>\<open>exp.__init__\<close> clears the sign flag.\<close>

definition top :: "int \<Rightarrow> exp" where
  "top n = Top n False"

definition comp :: "int \<Rightarrow> exp" where
  "comp s = Comp s False [] (times None s)"

text \<open>
  One pass of the \<^verbatim>\<open>for\<close> loop of \<^verbatim>\<open>comp.restruct\<close> over the sorted keys: the first pair
  of consecutive keys \<open>ra\<close>, \<open>rb\<close> with \<^verbatim>\<open>ra[1] == rb[0]\<close> whose parts are both constants
  (merged into \<^verbatim>\<open>cst((nb.v << na.size) | na.v, na.size + nb.size)\<close>) or both not defined
  (merged into \<^verbatim>\<open>top(rb[1] - ra[0])\<close>); \<open>None\<close> when the loop ends without a merge.
\<close>

fun find_merge :: "key list \<Rightarrow> (key \<times> exp) list \<Rightarrow> error + (key \<times> key \<times> exp) option" where
  "find_merge (ra # rb # rest) parts =
     (if snd ra = fst rb then
        bnd (dict_get parts ra) (\<lambda>na.
        bnd (dict_get parts rb) (\<lambda>nb.
          if is_cst na \<and> is_cst nb then
            bnd (v_of nb) (\<lambda>vb.
            bnd (py_shl vb (size_of na)) (\<lambda>sh.
            bnd (v_of na) (\<lambda>va.
            bnd (cst (sh OR va) (size_of na + size_of nb)) (\<lambda>c.
              Inr (Some (ra, rb, c))))))
          else if \<not> (is_def na \<or> is_def nb) then
            Inr (Some (ra, rb, top (snd rb - fst ra)))
          else find_merge (rb # rest) parts))
      else find_merge (rb # rest) parts)"
| "find_merge ks parts = Inr None"

text \<open>
  The merge itself: the new part is stored under \<^verbatim>\<open>(ra[0], rb[1])\<close>, both old keys are
  popped and the ownership index is rewritten over the merged range.
\<close>

definition restruct_step ::
  "(key \<times> exp) list \<Rightarrow> key option list
     \<Rightarrow> error + ((key \<times> exp) list \<times> key option list) option" where
  "restruct_step parts smask =
     bnd (find_merge (sort_key fst (map fst parts)) parts) (\<lambda>m.
       case m of
         None \<Rightarrow> Inr None
       | Some (ra, rb, new) \<Rightarrow>
           bnd (dict_pop (dict_set parts (fst ra, snd rb) new) ra) (\<lambda>(na, p1).
           bnd (dict_pop p1 rb) (\<lambda>(nb, p2).
             Inr (Some (p2, slice_assign smask (fst ra) (snd rb)
                              (times (Some (fst ra, snd rb)) (snd rb - fst ra)))))))"

lemma dict_set_length: "length (dict_set d k v) \<le> Suc (length d)"
  by (simp add: dict_set_def)

lemma dict_pop_length: "dict_pop d k = Inr (v, d') \<Longrightarrow> length d' < length d"
proof -
  assume a: "dict_pop d k = Inr (v, d')"
  then obtain w where w: "map_of d k = Some w"
    by (auto simp add: dict_pop_def split: option.splits)
  then have "(k, w) \<in> set d" by (rule map_of_SomeD)
  then have "length (filter (\<lambda>(k', v'). k' \<noteq> k) d) < length d"
    by (rule length_filter_less) simp
  with a w show ?thesis by (simp add: dict_pop_def)
qed

lemma restruct_step_length:
  "restruct_step parts smask = Inr (Some (p, s)) \<Longrightarrow> length p < length parts"
proof -
  assume a: "restruct_step parts smask = Inr (Some (p, s))"
  then obtain ra rb new na p1 nb where
    1: "dict_pop (dict_set parts (fst ra, snd rb) new) ra = Inr (na, p1)" and
    2: "dict_pop p1 rb = Inr (nb, p)"
    by (auto simp add: restruct_step_def bnd_def split: sum.splits option.splits prod.splits)
  from dict_pop_length [OF 1] dict_pop_length [OF 2]
    dict_set_length [of parts "(fst ra, snd rb)" new]
  show ?thesis by linarith
qed

text \<open>
  \<^verbatim>\<open>comp.restruct\<close>: after a merge the method calls itself and leaves the loop; it
  returns when a pass finds nothing to merge.  Each merge removes a part.
\<close>

function restruct ::
  "(key \<times> exp) list \<Rightarrow> key option list \<Rightarrow> error + ((key \<times> exp) list \<times> key option list)" where
  "restruct parts smask =
     (case restruct_step parts smask of
        Inl e \<Rightarrow> Inl e
      | Inr None \<Rightarrow> Inr (parts, smask)
      | Inr (Some (p, s)) \<Rightarrow> restruct p s)"
  by pat_completeness auto
termination
  by (relation "measure (\<lambda>(parts, smask). length parts)")
     (auto dest: restruct_step_length)

declare restruct.simps [simp del]

section \<open>The recursion of the simplifier\<close>

text \<open>
  \<^verbatim>\<open>simplify\<close>, \<^verbatim>\<open>__getitem__\<close> and \<^verbatim>\<open>__setitem__\<close> call one another through the operator
  constructors.  Each function below takes the three methods as a parameter \<open>rec\<close>, a
  function from a call to its result, and \<open>run\<close> (at the end) closes the recursion
  with a bound on its depth.  A result is a pair: the value returned, and the receiver
  as the call leaves it (\<^verbatim>\<open>simplify\<close> assigns to \<^verbatim>\<open>self\<close>'s attributes; \<^verbatim>\<open>__setitem__\<close>
  returns nothing and updates the composite).

  The keyword arguments of \<^verbatim>\<open>simplify\<close> are \<^verbatim>\<open>bitslice\<close> and \<^verbatim>\<open>widening\<close>, both absent
  (false) by default.  An index is a slice object with its three fields, or anything else.
\<close>

record kargs =
  bitslice :: bool
  widening :: bool

definition no_kargs :: kargs where
  "no_kargs = \<lparr>bitslice = False, widening = False\<rparr>"

datatype pyindex = PySlice "int option" "int option" "int option" | PyOther

definition slice :: "int \<Rightarrow> int \<Rightarrow> pyindex" where
  "slice a b = PySlice (Some a) (Some b) None"

datatype call = Simplify exp kargs | Getitem exp pyindex | Setitem exp pyindex exp

type_synonym recfn = "call \<Rightarrow> error + (exp \<times> exp)"

definition simplify :: "recfn \<Rightarrow> exp \<Rightarrow> kargs \<Rightarrow> error + exp" where
  "simplify rec e k = bnd (rec (Simplify e k)) (\<lambda>(res, self). Inr res)"

definition getitem :: "recfn \<Rightarrow> exp \<Rightarrow> int \<Rightarrow> int \<Rightarrow> error + exp" where
  "getitem rec e a b = bnd (rec (Getitem e (slice a b))) (\<lambda>(res, self). Inr res)"

definition setitem :: "recfn \<Rightarrow> exp \<Rightarrow> int \<Rightarrow> int \<Rightarrow> exp \<Rightarrow> error + exp" where
  "setitem rec e a b v = bnd (rec (Setitem e (slice a b) v)) (\<lambda>(res, self). Inr self)"

section \<open>Operators\<close>

text \<open>
  \<^verbatim>\<open>_operator.__init__\<close>: the type (1 arithmetic, 2 logic, 4 comparison, 8 shift) and the
  \<^verbatim>\<open>unsigned\<close> flag of a symbol; \<^verbatim>\<open>_operator.__mul__\<close> on two symbols.
\<close>

fun op_type :: "opsym \<Rightarrow> int" where
  "op_type OP_ADD = 1" | "op_type OP_MIN = 1" | "op_type OP_MUL = 1"
| "op_type OP_MUL2 = 1" | "op_type OP_DIV = 1" | "op_type OP_MOD = 1"
| "op_type OP_AND = 2" | "op_type OP_OR = 2" | "op_type OP_XOR = 2" | "op_type OP_NOT = 2"
| "op_type OP_EQ = 4" | "op_type OP_NEQ = 4" | "op_type OP_LE = 4" | "op_type OP_GE = 4"
| "op_type OP_GEU = 4" | "op_type OP_LT = 4" | "op_type OP_LTU = 4" | "op_type OP_GT = 4"
| "op_type OP_LSL = 8" | "op_type OP_LSR = 8" | "op_type OP_ASR = 8"
| "op_type OP_ROR = 8" | "op_type OP_ROL = 8"

definition op_unsigned :: "opsym \<Rightarrow> bool" where
  "op_unsigned s = (op_type s = 2 \<or> s = OP_GEU \<or> s = OP_LTU)"

fun op_mult :: "opsym \<Rightarrow> opsym \<Rightarrow> opsym option" where
  "op_mult OP_ADD OP_ADD = Some OP_ADD"
| "op_mult OP_MIN OP_MIN = Some OP_ADD"
| "op_mult OP_ADD OP_MIN = Some OP_MIN"
| "op_mult OP_MIN OP_ADD = Some OP_MIN"
| "op_mult a b = None"

text \<open>
  \<^verbatim>\<open>op.__init__(op, l, r)\<close> and \<^verbatim>\<open>uop.__init__(op, r)\<close>.  A unary \<^verbatim>\<open>_operator\<close> exists for
  \<^verbatim>\<open>+\<close>, \<^verbatim>\<open>-\<close>, \<^verbatim>\<open>~\<close> and the comparison and shift symbols; the other arithmetic symbols
  miss the dictionary of unary implementations, the other logic symbols fail the assertion.
\<close>

definition op_init :: "opsym \<Rightarrow> exp \<Rightarrow> exp \<Rightarrow> error + exp" where
  "op_init s l r =
     (let prop = op_type s in
      if prop < 4 \<and> size_of l \<noteq> size_of r then Inl ValueError
      else
        let sz = (if prop = 4 then 1 else if s = OP_MUL2 then size_of l * 2 else size_of l);
            sf = (if prop = 1 then sf_of l \<or> sf_of r else sf_of l) in
        bnd (if is_eqn l then bnd (prop_of l) (\<lambda>p. Inr (prop OR p)) else Inr prop) (\<lambda>prop1.
        bnd (if is_eqn r then bnd (prop_of r) (\<lambda>p. Inr (prop1 OR p)) else Inr prop1) (\<lambda>prop2.
          Inr (Op s l r prop2 sz sf))))"

definition unary_operator :: "opsym \<Rightarrow> error + unit" where
  "unary_operator s =
     (if op_type s = 1 then (if s = OP_ADD \<or> s = OP_MIN then Inr () else Inl KeyError)
      else if op_type s = 2 then (if s = OP_NOT then Inr () else Inl AssertionError)
      else Inr ())"

definition uop_init :: "opsym \<Rightarrow> exp \<Rightarrow> error + exp" where
  "uop_init s r =
     bnd (unary_operator s) (\<lambda>_.
     bnd (if is_eqn r then bnd (prop_of r) (\<lambda>p. Inr (op_type s OR p)) else Inr (op_type s))
       (\<lambda>prop. Inr (Uop s r prop (size_of r) (sf_of r))))"

text \<open>\<^verbatim>\<open>oper(opsym, l, r)\<close> and \<^verbatim>\<open>oper(opsym, l)\<close>: build the node and simplify it.\<close>

definition oper2 :: "recfn \<Rightarrow> opsym \<Rightarrow> exp \<Rightarrow> exp \<Rightarrow> error + exp" where
  "oper2 rec s l r = bnd (op_init s l r) (\<lambda>n. simplify rec n no_kargs)"

definition oper1 :: "recfn \<Rightarrow> opsym \<Rightarrow> exp \<Rightarrow> error + exp" where
  "oper1 rec s l = bnd (uop_init s l) (\<lambda>n. simplify rec n no_kargs)"

subsection \<open>The methods of the operators\<close>

text \<open>
  The binary special methods.  \<open>meth_op\<close> is the symbol \<^verbatim>\<open>exp\<close>'s method hands to
  \<^verbatim>\<open>oper\<close> (\<^verbatim>\<open>__floordiv__\<close> is the arithmetic shift, \<^verbatim>\<open>__pow__\<close> the widening product).
\<close>

datatype meth =
    M_add | M_sub | M_mul | M_pow | M_truediv | M_mod | M_floordiv
  | M_and | M_or | M_xor | M_lshift | M_rshift
  | M_eq | M_ne | M_lt | M_le | M_ge | M_gt

fun meth_op :: "meth \<Rightarrow> opsym" where
  "meth_op M_add = OP_ADD" | "meth_op M_sub = OP_MIN" | "meth_op M_mul = OP_MUL"
| "meth_op M_pow = OP_MUL2" | "meth_op M_truediv = OP_DIV" | "meth_op M_mod = OP_MOD"
| "meth_op M_floordiv = OP_ASR" | "meth_op M_and = OP_AND" | "meth_op M_or = OP_OR"
| "meth_op M_xor = OP_XOR" | "meth_op M_lshift = OP_LSL" | "meth_op M_rshift = OP_LSR"
| "meth_op M_eq = OP_EQ" | "meth_op M_ne = OP_NEQ" | "meth_op M_lt = OP_LT"
| "meth_op M_le = OP_LE" | "meth_op M_ge = OP_GE" | "meth_op M_gt = OP_GT"

definition is_comparison :: "meth \<Rightarrow> bool" where
  "is_comparison m = (m \<in> {M_eq, M_ne, M_lt, M_le, M_ge, M_gt})"

text \<open>
  \<^verbatim>\<open>exp\<close>'s methods: the arithmetic ones call \<^verbatim>\<open>oper\<close>; a comparison first compares the
  hashes and answers \<^verbatim>\<open>bit1\<close> (for \<^verbatim>\<open>==\<close>, \<^verbatim>\<open><=\<close>, \<^verbatim>\<open>>=\<close>) or \<^verbatim>\<open>bit0\<close> when they agree.
\<close>

definition exp_meth :: "recfn \<Rightarrow> config \<Rightarrow> meth \<Rightarrow> exp \<Rightarrow> exp \<Rightarrow> error + exp" where
  "exp_meth rec c m self n =
     (if is_comparison m then
        bnd (hash_of c self) (\<lambda>h1.
        bnd (hash_of c n) (\<lambda>h2.
          if h1 = h2 then Inr (if m \<in> {M_eq, M_le, M_ge} then bit1 else bit0)
          else oper2 rec (meth_op m) self n))
      else oper2 rec (meth_op m) self n)"

text \<open>
  \<^verbatim>\<open>cst\<close>'s methods on two constants.  \<^verbatim>\<open>/\<close> and \<^verbatim>\<open>%\<close> are Python's floor division and
  modulo; the bitwise methods and \<^verbatim>\<open>==\<close>, \<^verbatim>\<open>!=\<close> read the stored patterns, the others \<^verbatim>\<open>value\<close>.
\<close>

definition cst_fold_value :: "meth \<Rightarrow> int \<Rightarrow> int \<Rightarrow> int \<Rightarrow> error + exp" where
  "cst_fold_value m a b sz =
     (if m = M_add then cst (a + b) sz
      else if m = M_sub then cst (a - b) sz
      else if m = M_mul then cst (a * b) sz
      else if m = M_pow then cst (a * b) (2 * sz)
      else if m = M_truediv then (if b = 0 then Inl ZeroDivisionError else cst (a div b) sz)
      else if m = M_mod then (if b = 0 then Inl ZeroDivisionError else cst (a mod b) sz)
      else if m = M_lshift then bnd (py_shl a b) (\<lambda>x. cst x sz)
      else if m = M_rshift \<or> m = M_floordiv then bnd (py_shr a b) (\<lambda>x. cst x sz)
      else if m = M_lt then Inr (cst_bool (a < b))
      else if m = M_le then Inr (cst_bool (a \<le> b))
      else if m = M_ge then Inr (cst_bool (a \<ge> b))
      else if m = M_gt then Inr (cst_bool (a > b))
      else Inl NotImplementedError)"

definition cst_fold_pattern :: "meth \<Rightarrow> int \<Rightarrow> int \<Rightarrow> int \<Rightarrow> error + exp" where
  "cst_fold_pattern m a b sz =
     (if m = M_and then cst (a AND b) sz
      else if m = M_or then cst (a OR b) sz
      else if m = M_xor then cst (a XOR b) sz
      else if m = M_eq then Inr (cst_bool (a = b))
      else if m = M_ne then Inr (cst_bool (a \<noteq> b))
      else Inl NotImplementedError)"

definition cst_fold :: "meth \<Rightarrow> exp \<Rightarrow> exp \<Rightarrow> error + exp" where
  "cst_fold m self n =
     (if m \<in> {M_and, M_or, M_xor, M_eq, M_ne} then
        bnd (v_of self) (\<lambda>a. bnd (v_of n) (\<lambda>b. cst_fold_pattern m a b (size_of self)))
      else
        bnd (cst_value self) (\<lambda>a. bnd (cst_value n) (\<lambda>b. cst_fold_value m a b (size_of self))))"

text \<open>
  The decorator \<^verbatim>\<open>_checkarg_sizes\<close> guards every method of \<^verbatim>\<open>cst\<close> but \<^verbatim>\<open>/\<close>, \<^verbatim>\<open>%\<close> and
  the shifts.  \<^verbatim>\<open>__rshift__\<close> clears the receiver's sign flag and \<^verbatim>\<open>__floordiv__\<close> sets it,
  before anything else.  The result is the value returned with both operands as the call
  leaves them.
\<close>

definition checkarg_sizes :: "exp \<Rightarrow> exp \<Rightarrow> error + unit" where
  "checkarg_sizes self n =
     (if size_of self \<noteq> size_of n \<and> size_of self > 0 \<and> size_of n > 0 then Inl ValueError
      else Inr ())"

definition cst_meth ::
  "recfn \<Rightarrow> config \<Rightarrow> meth \<Rightarrow> exp \<Rightarrow> exp \<Rightarrow> error + (exp \<times> exp \<times> exp)" where
  "cst_meth rec c m self n =
     bnd (if m \<in> {M_truediv, M_mod, M_lshift, M_rshift, M_floordiv} then Inr ()
          else checkarg_sizes self n) (\<lambda>_.
       let self' = (if m = M_rshift then set_sf False self
                    else if m = M_floordiv then set_sf True self else self) in
       bnd (if is_cst n then cst_fold m self' n else exp_meth rec c m self' n) (\<lambda>res.
         Inr (res, self', n)))"

subsection \<open>Classes and method lookup\<close>

datatype cls =
    C_exp | C_top | C_cst | C_sym | C_reg | C_ext | C_lab | C_comp | C_mem | C_ptr
  | C_slc | C_tst | C_op | C_uop | C_vec | C_vecw

fun class_of :: "exp \<Rightarrow> cls" where
  "class_of (Void n sf) = C_exp"
| "class_of (Top n sf) = C_top"
| "class_of (Cst v n sf) = C_cst"
| "class_of (Sym ref v n sf) = C_sym"
| "class_of (Reg ref n sf rt sr) = C_reg"
| "class_of (Ext ref n sf) = C_ext"
| "class_of (Lab ref n sf) = C_lab"
| "class_of (Comp n sf parts smask) = C_comp"
| "class_of (Mem a n sf mods endian) = C_mem"
| "class_of (Ptr base disp seg n sf) = C_ptr"
| "class_of (Slc x pos n sf ref et) = C_slc"
| "class_of (Tst t l r n sf) = C_tst"
| "class_of (Op opr l r prop n sf) = C_op"
| "class_of (Uop opr r prop n sf) = C_uop"
| "class_of (Vec l n sf) = C_vec"
| "class_of (Vecw l n sf) = C_vecw"

text \<open>The proper base classes: \<^verbatim>\<open>sym(cst)\<close>, \<^verbatim>\<open>vecw(top)\<close>, \<^verbatim>\<open>ext(reg)\<close>, \<^verbatim>\<open>lab(ext)\<close>.\<close>

fun bases :: "cls \<Rightarrow> cls list" where
  "bases C_exp = []"
| "bases C_sym = [C_cst, C_exp]"
| "bases C_vecw = [C_top, C_exp]"
| "bases C_ext = [C_reg, C_exp]"
| "bases C_lab = [C_ext, C_reg, C_exp]"
| "bases k = [C_exp]"

definition strict_subclass :: "exp \<Rightarrow> exp \<Rightarrow> bool" where
  "strict_subclass r l = (class_of l \<in> set (bases (class_of r)))"

definition is_cst_class :: "exp \<Rightarrow> bool" where
  "is_cst_class e = (class_of e = C_cst \<or> class_of e = C_sym)"

text \<open>
  \<^verbatim>\<open>type(self).__m__(self, n)\<close>: \<^verbatim>\<open>cst\<close> defines all the binary methods; \<^verbatim>\<open>sym\<close> inherits
  them but rebinds \<^verbatim>\<open>__eq__\<close> to \<^verbatim>\<open>exp.__eq__\<close>; every other class has \<^verbatim>\<open>exp\<close>'s.
\<close>

definition meth_call ::
  "recfn \<Rightarrow> config \<Rightarrow> meth \<Rightarrow> exp \<Rightarrow> exp \<Rightarrow> error + (exp \<times> exp \<times> exp)" where
  "meth_call rec c m self n =
     (if class_of self = C_cst \<or> (class_of self = C_sym \<and> m \<noteq> M_eq) then cst_meth rec c m self n
      else bnd (exp_meth rec c m self n) (\<lambda>res. Inr (res, self, n)))"

fun swapped :: "meth \<Rightarrow> meth" where
  "swapped M_lt = M_gt"
| "swapped M_gt = M_lt"
| "swapped M_le = M_ge"
| "swapped M_ge = M_le"
| "swapped m = m"

text \<open>
  The expression \<^verbatim>\<open>l <op> r\<close> as Python evaluates it.  When the class of \<open>r\<close> is a proper
  subclass of the class of \<open>l\<close>, a comparison calls the swapped method of \<open>r\<close> first.
  An arithmetic operator tries \<open>r\<close>'s reflected method first when it differs from the one
  of \<open>l\<close>'s class: that is \<^verbatim>\<open>cst.__radd__\<close> and its like (\<^verbatim>\<open>return n + self\<close>) under a plain
  \<^verbatim>\<open>exp\<close>, and the same expression is evaluated again without end.  No method of the
  module returns \<^verbatim>\<open>NotImplemented\<close>.
\<close>

definition py_binop ::
  "recfn \<Rightarrow> config \<Rightarrow> meth \<Rightarrow> exp \<Rightarrow> exp \<Rightarrow> error + (exp \<times> exp \<times> exp)" where
  "py_binop rec c m l r =
     (if is_comparison m then
        (if strict_subclass r l then
           bnd (meth_call rec c (swapped m) r l) (\<lambda>(res, r', l'). Inr (res, l', r'))
         else meth_call rec c m l r)
      else if m \<in> {M_add, M_sub, M_mul, M_pow, M_and, M_or, M_xor}
              \<and> strict_subclass r l \<and> is_cst_class r \<and> \<not> is_cst_class l
        then Inl RecursionError
      else meth_call rec c m l r)"

text \<open>
  \<^verbatim>\<open>k - n\<close> for a Python integer \<open>k\<close>: \<^verbatim>\<open>n.__rsub__(k)\<close>, which wraps \<open>k\<close> as
  \<^verbatim>\<open>cst(k, n.size)\<close>; \<^verbatim>\<open>cst.__rsub__\<close> evaluates \<^verbatim>\<open>n - self\<close>, \<^verbatim>\<open>exp.__rsub__\<close> calls \<^verbatim>\<open>oper\<close>.
\<close>

definition int_sub_exp :: "recfn \<Rightarrow> config \<Rightarrow> int \<Rightarrow> exp \<Rightarrow> error + exp" where
  "int_sub_exp rec c k n =
     bnd (cst k (size_of n)) (\<lambda>kc.
       if is_cst_class n then bnd (py_binop rec c M_sub kc n) (\<lambda>(res, a, b). Inr res)
       else oper2 rec OP_MIN kc n)"

text \<open>The helpers \<^verbatim>\<open>ror\<close>, \<^verbatim>\<open>rol\<close>, \<^verbatim>\<open>ltu\<close>, \<^verbatim>\<open>geu\<close>; on non-constants they build a bare \<^verbatim>\<open>op\<close> node.\<close>

definition ror :: "recfn \<Rightarrow> config \<Rightarrow> exp \<Rightarrow> exp \<Rightarrow> error + (exp \<times> exp \<times> exp)" where
  "ror rec c x n =
     (if is_cst x then
        bnd (py_binop rec c M_rshift x n) (\<lambda>(a, x1, n1).
        bnd (int_sub_exp rec c (size_of x1) n1) (\<lambda>d.
        bnd (py_binop rec c M_lshift x1 d) (\<lambda>(b, x2, d2).
        bnd (py_binop rec c M_or a b) (\<lambda>(res, a', b'). Inr (res, x2, n1)))))
      else bnd (op_init OP_ROR x n) (\<lambda>res. Inr (res, x, n)))"

definition rol :: "recfn \<Rightarrow> config \<Rightarrow> exp \<Rightarrow> exp \<Rightarrow> error + (exp \<times> exp \<times> exp)" where
  "rol rec c x n =
     (if is_cst x then
        bnd (py_binop rec c M_lshift x n) (\<lambda>(a, x1, n1).
        bnd (int_sub_exp rec c (size_of x1) n1) (\<lambda>d.
        bnd (py_binop rec c M_rshift x1 d) (\<lambda>(b, x2, d2).
        bnd (py_binop rec c M_or a b) (\<lambda>(res, a', b'). Inr (res, x2, n1)))))
      else bnd (op_init OP_ROL x n) (\<lambda>res. Inr (res, x, n)))"

definition ltu :: "recfn \<Rightarrow> config \<Rightarrow> exp \<Rightarrow> exp \<Rightarrow> error + (exp \<times> exp \<times> exp)" where
  "ltu rec c x y =
     (if \<not> (is_cst x \<and> is_cst y) then bnd (op_init OP_LTU x y) (\<lambda>res. Inr (res, x, y))
      else py_binop rec c M_lt (set_sf True x) (set_sf True y))"

definition geu :: "recfn \<Rightarrow> config \<Rightarrow> exp \<Rightarrow> exp \<Rightarrow> error + (exp \<times> exp \<times> exp)" where
  "geu rec c x y =
     (if \<not> (is_cst x \<and> is_cst y) then bnd (op_init OP_GEU x y) (\<lambda>res. Inr (res, x, y))
      else py_binop rec c M_ge (set_sf True x) (set_sf True y))"

text \<open>
  The tables \<^verbatim>\<open>OP_ARITH\<close>, \<^verbatim>\<open>OP_LOGIC\<close>, \<^verbatim>\<open>OP_CONDT\<close>, \<^verbatim>\<open>OP_SHIFT\<close> applied to two operands.
  \<^verbatim>\<open>operator.invert\<close> takes one argument.
\<close>

fun op_impl :: "recfn \<Rightarrow> config \<Rightarrow> opsym \<Rightarrow> exp \<Rightarrow> exp \<Rightarrow> error + (exp \<times> exp \<times> exp)" where
  "op_impl rec c OP_ADD l r = py_binop rec c M_add l r"
| "op_impl rec c OP_MIN l r = py_binop rec c M_sub l r"
| "op_impl rec c OP_MUL l r = py_binop rec c M_mul l r"
| "op_impl rec c OP_MUL2 l r = py_binop rec c M_pow l r"
| "op_impl rec c OP_DIV l r = py_binop rec c M_truediv l r"
| "op_impl rec c OP_MOD l r = py_binop rec c M_mod l r"
| "op_impl rec c OP_AND l r = py_binop rec c M_and l r"
| "op_impl rec c OP_OR l r = py_binop rec c M_or l r"
| "op_impl rec c OP_XOR l r = py_binop rec c M_xor l r"
| "op_impl rec c OP_NOT l r = Inl TypeError"
| "op_impl rec c OP_EQ l r = py_binop rec c M_eq l r"
| "op_impl rec c OP_NEQ l r = py_binop rec c M_ne l r"
| "op_impl rec c OP_LE l r = py_binop rec c M_le l r"
| "op_impl rec c OP_GE l r = py_binop rec c M_ge l r"
| "op_impl rec c OP_GEU l r = geu rec c l r"
| "op_impl rec c OP_LT l r = py_binop rec c M_lt l r"
| "op_impl rec c OP_LTU l r = ltu rec c l r"
| "op_impl rec c OP_GT l r = py_binop rec c M_gt l r"
| "op_impl rec c OP_LSL l r = py_binop rec c M_lshift l r"
| "op_impl rec c OP_LSR l r = py_binop rec c M_rshift l r"
| "op_impl rec c OP_ASR l r = py_binop rec c M_floordiv l r"
| "op_impl rec c OP_ROR l r = ror rec c l r"
| "op_impl rec c OP_ROL l r = rol rec c l r"

text \<open>
  \<^verbatim>\<open>_operator.__call__(l, r)\<close>: an unsigned operator clears the sign flags of both operand
  objects, then the implementation runs.  \<open>operator_call\<close> keeps only the value returned.
\<close>

definition operator_call_full ::
  "recfn \<Rightarrow> config \<Rightarrow> opsym \<Rightarrow> exp \<Rightarrow> exp \<Rightarrow> error + (exp \<times> exp \<times> exp)" where
  "operator_call_full rec c s l r =
     (if op_unsigned s then op_impl rec c s (set_sf False l) (set_sf False r)
      else op_impl rec c s l r)"

definition operator_call :: "recfn \<Rightarrow> config \<Rightarrow> opsym \<Rightarrow> exp \<Rightarrow> exp \<Rightarrow> error + exp" where
  "operator_call rec c s l r = bnd (operator_call_full rec c s l r) (\<lambda>(res, l', r'). Inr res)"

definition impl_call :: "recfn \<Rightarrow> config \<Rightarrow> opsym \<Rightarrow> exp \<Rightarrow> exp \<Rightarrow> error + exp" where
  "impl_call rec c s l r = bnd (op_impl rec c s l r) (\<lambda>(res, l', r'). Inr res)"

text \<open>The unary methods \<^verbatim>\<open>__neg__\<close>, \<^verbatim>\<open>__invert__\<close>, and a unary \<^verbatim>\<open>_operator\<close> applied.\<close>

definition py_neg :: "recfn \<Rightarrow> exp \<Rightarrow> error + exp" where
  "py_neg rec e =
     (if is_cst_class e then bnd (cst_value e) (\<lambda>v. cst (- v) (size_of e))
      else oper1 rec OP_MIN e)"

definition py_invert :: "recfn \<Rightarrow> exp \<Rightarrow> error + exp" where
  "py_invert rec e =
     (if is_cst_class e then
        bnd (v_of e) (\<lambda>v. bnd (mask_of (size_of e)) (\<lambda>m. cst ((NOT v) AND m) (size_of e)))
      else oper1 rec OP_NOT e)"

definition operator_call1 :: "recfn \<Rightarrow> opsym \<Rightarrow> exp \<Rightarrow> error + exp" where
  "operator_call1 rec s l =
     bnd (unary_operator s) (\<lambda>_.
       if s = OP_ADD then Inr l
       else if s = OP_MIN then py_neg rec l
       else if s = OP_NOT then py_invert rec l
       else Inl TypeError)"

section \<open>Pointers, memory and slices\<close>

text \<open>
  \<^verbatim>\<open>extract_offset(e)\<close>: \<^verbatim>\<open>x = e.simplify().unsigned()\<close>; when \<open>x\<close> is an operator node with a
  constant right operand, the symbol that decides is read from \<^verbatim>\<open>e.op\<close>, that is from the
  argument as \<^verbatim>\<open>simplify\<close> left it, not from \<open>x\<close>.  (\<^verbatim>\<open>x.l\<close> of a unary node is \<^verbatim>\<open>None\<close>;
  a pointer on \<^verbatim>\<open>None\<close> has no place in \<open>exp\<close> and the model raises there.)
\<close>

definition extract_offset :: "recfn \<Rightarrow> exp \<Rightarrow> error + (exp \<times> int)" where
  "extract_offset rec e =
     bnd (rec (Simplify e no_kargs)) (\<lambda>(x0, e').
       let x = set_sf False x0 in
       bnd (if is_eqn x then bnd (eqn_r x) (\<lambda>r. Inr (is_cst r)) else Inr False) (\<lambda>b.
         if b then
           bnd (opsym_of e') (\<lambda>s.
             if s = OP_ADD then
               bnd (eqn_l x) (\<lambda>l. bnd (eqn_r x) (\<lambda>r. bnd (cst_value r) (\<lambda>v.
               bnd (the_obj l) (\<lambda>l'. Inr (l', v)))))
             else if s = OP_MIN then
               bnd (eqn_l x) (\<lambda>l. bnd (eqn_r x) (\<lambda>r. bnd (cst_value r) (\<lambda>v.
               bnd (the_obj l) (\<lambda>l'. Inr (l', - v)))))
             else Inr (x, 0))
         else Inr (x, 0)))"

text \<open>\<^verbatim>\<open>ptr.__init__(base, seg, disp)\<close> and \<^verbatim>\<open>mem.__init__(a, size, seg, disp, mods, endian)\<close>.\<close>

definition ptr_init :: "recfn \<Rightarrow> exp \<Rightarrow> exp option \<Rightarrow> int \<Rightarrow> error + exp" where
  "ptr_init rec base0 seg0 disp0 =
     bnd (if is_ptr base0 then
            bnd (seg_of base0) (\<lambda>bseg. bnd (disp_of base0) (\<lambda>bdisp. bnd (base_of base0) (\<lambda>bbase.
              Inr (bbase, (if seg0 = None then bseg else seg0), bdisp + disp0))))
          else Inr (base0, seg0, disp0)) (\<lambda>(base, seg, disp).
     bnd (extract_offset rec base) (\<lambda>(b, offset).
       Inr (Ptr b (disp + offset) seg (size_of base) False)))"

definition mem_init ::
  "recfn \<Rightarrow> exp \<Rightarrow> int \<Rightarrow> exp option \<Rightarrow> int \<Rightarrow> (exp \<times> exp) list \<Rightarrow> int \<Rightarrow> error + exp" where
  "mem_init rec a sz seg disp mods endian =
     bnd (ptr_init rec a seg disp) (\<lambda>p. Inr (Mem p sz False mods endian))"

text \<open>
  \<^verbatim>\<open>slc.__init__(x, pos, size)\<close> with the default \<^verbatim>\<open>ref=None\<close>, as every call of the module
  has it: a slice of a slice is resolved through \<^verbatim>\<open>x[pos:pos+size]\<close>, a slice of a
  register takes the register's \<^verbatim>\<open>etype\<close> bits and its alias for \<^verbatim>\<open>(pos, size)\<close>.
\<close>

fun x_of :: "exp \<Rightarrow> error + exp" where
  "x_of (Slc x pos n sf ref et) = Inr x"
| "x_of e = Inl AttributeError"

fun pos_of :: "exp \<Rightarrow> error + int" where
  "pos_of (Slc x pos n sf ref et) = Inr pos"
| "pos_of e = Inl AttributeError"

fun subrefs_of :: "exp \<Rightarrow> error + (key \<times> string) list" where
  "subrefs_of (Reg ref n sf rt sr) = Inr sr"
| "subrefs_of (Ext ref n sf) = Inr []"
| "subrefs_of (Lab ref n sf) = Inr []"
| "subrefs_of e = Inl AttributeError"

definition slc_init :: "recfn \<Rightarrow> exp \<Rightarrow> int \<Rightarrow> int \<Rightarrow> error + exp" where
  "slc_init rec x0 pos0 sz =
     bnd (if class_of x0 = C_slc then
            bnd (getitem rec x0 pos0 (pos0 + sz)) (\<lambda>res.
            bnd (x_of res) (\<lambda>x. bnd (pos_of res) (\<lambda>pos. Inr (x, pos))))
          else Inr (x0, pos0)) (\<lambda>(x, pos).
       if is_reg x then
         bnd (subrefs_of x) (\<lambda>sr.
           Inr (Slc x pos sz (sf_of x0) (map_of sr (pos, sz)) (et_slc OR etype x)))
       else Inr (Slc x pos sz (sf_of x0) None et_slc))"

text \<open>\<^verbatim>\<open>slicer(x, pos, size)\<close>.\<close>

definition slicer :: "recfn \<Rightarrow> exp \<Rightarrow> int \<Rightarrow> int \<Rightarrow> error + exp" where
  "slicer rec x pos sz =
     (if \<not> is_def x then Inr (top sz)
      else if pos = 0 \<and> sz = size_of x then Inr x
      else if is_mem x \<or> is_cmp x then
        bnd (getitem rec x pos (pos + sz)) (\<lambda>res. Inr (set_sf (sf_of x) res))
      else slc_init rec x pos sz)"

section \<open>Slicing\<close>

text \<open>
  The decorator \<^verbatim>\<open>_checkarg_slice\<close> around a method \<open>f\<close>: the index must be a slice
  without step, with \<^verbatim>\<open>0 <= start < stop <= self.size\<close>; only then is \<open>f\<close> called.
  (Comparing \<^verbatim>\<open>None\<close> with an integer raises \<^verbatim>\<open>TypeError\<close>.)
\<close>

definition checkarg_slice ::
  "(exp \<Rightarrow> int \<Rightarrow> int \<Rightarrow> error + 'a) \<Rightarrow> exp \<Rightarrow> pyindex \<Rightarrow> error + 'a" where
  "checkarg_slice f self i =
     (case i of
        PyOther \<Rightarrow> Inl TypeError
      | PySlice start stop step \<Rightarrow>
          if step \<noteq> None then Inl ValueError
          else (case start of
                  None \<Rightarrow> Inl TypeError
                | Some a \<Rightarrow>
                    if a < 0 then Inl ValueError
                    else (case stop of
                            None \<Rightarrow> Inl TypeError
                          | Some b \<Rightarrow>
                              if b > size_of self then Inl ValueError
                              else if b \<le> a then Inl ValueError
                              else f self a b)))"

text \<open>
  The bodies of \<^verbatim>\<open>__getitem__\<close>, on the bounds the decorator let through (so that
  \<^verbatim>\<open>i.start or 0\<close> and \<^verbatim>\<open>i.stop or self.size\<close> are the bounds themselves).
\<close>

definition exp_getitem :: "recfn \<Rightarrow> exp \<Rightarrow> int \<Rightarrow> int \<Rightarrow> error + exp" where
  "exp_getitem rec self a b = slicer rec self a (b - a)"

definition cst_getitem :: "exp \<Rightarrow> int \<Rightarrow> int \<Rightarrow> error + exp" where
  "cst_getitem self a b = bnd (v_of self) (\<lambda>v. bnd (py_shr v a) (\<lambda>x. cst x (b - a)))"

fun mods_of :: "exp \<Rightarrow> error + (exp \<times> exp) list" where
  "mods_of (Mem a n sf mods endian) = Inr mods"
| "mods_of e = Inl AttributeError"

fun endian_of :: "exp \<Rightarrow> error + int" where
  "endian_of (Mem a n sf mods endian) = Inr endian"
| "endian_of e = Inl AttributeError"

definition mem_getitem :: "recfn \<Rightarrow> exp \<Rightarrow> int \<Rightarrow> int \<Rightarrow> error + exp" where
  "mem_getitem rec self sta sto =
     (let b1 = sta div 8; r1 = sta mod 8; r2 = sto mod 8;
          b2 = (if r2 > 0 then sto div 8 + 1 else sto div 8);
          l = size_of self div 8 in
      bnd (endian_of self) (\<lambda>endian.
        let b1' = (if endian = - 1 then l - b2 else b1);
            b2' = (if endian = - 1 then l - b1 else b2) in
        bnd (a_of self) (\<lambda>a. bnd (mods_of self) (\<lambda>mods.
        bnd (mem_init rec a ((b2' - b1') * 8) None b1' mods endian) (\<lambda>x0.
          let x = set_sf (sf_of self) x0 in
          if r1 > 0 \<or> r2 > 0 then slc_init rec x r1 (sto - sta) else Inr x)))))"

definition slc_getitem :: "recfn \<Rightarrow> exp \<Rightarrow> int \<Rightarrow> int \<Rightarrow> error + exp" where
  "slc_getitem rec self a b =
     (if a = 0 \<and> b = size_of self then Inr self
      else bnd (pos_of self) (\<lambda>pos. bnd (x_of self) (\<lambda>x. slicer rec x (pos + a) (b - a))))"

definition vec_getitem :: "recfn \<Rightarrow> exp \<Rightarrow> int \<Rightarrow> int \<Rightarrow> error + exp" where
  "vec_getitem rec self a b =
     bnd (l_of self) (\<lambda>l. bnd (sequence (map (\<lambda>e. getitem rec e a b) l)) vec_init)"

definition vecw_getitem :: "recfn \<Rightarrow> exp \<Rightarrow> int \<Rightarrow> int \<Rightarrow> error + exp" where
  "vecw_getitem rec self a b = bnd (vec_getitem rec self a b) vecw_init"

section \<open>Composite: reading and writing ranges\<close>

fun smask_of :: "exp \<Rightarrow> error + key option list" where
  "smask_of (Comp n sf parts smask) = Inr smask"
| "smask_of e = Inl AttributeError"

text \<open>
  \<^verbatim>\<open>comp.cut(start, stop)\<close>: the keys owning a bit of the range, in order of first
  appearance; each is popped and its fragments below \<open>start\<close> and above \<open>stop\<close> are
  stored again; then the range is given to \<^verbatim>\<open>(start, stop)\<close>.
\<close>

definition maskset :: "key option list \<Rightarrow> key list" where
  "maskset ms = fold (\<lambda>m acc. case m of None \<Rightarrow> acc
                                 | Some k \<Rightarrow> if k \<in> set acc then acc else acc @ [k]) ms []"

fun cut_loop ::
  "recfn \<Rightarrow> int \<Rightarrow> int \<Rightarrow> key list \<Rightarrow> (key \<times> exp) list \<Rightarrow> key option list
     \<Rightarrow> error + ((key \<times> exp) list \<times> key option list)" where
  "cut_loop rec start stop [] parts smask = Inr (parts, smask)"
| "cut_loop rec start stop (nk # ks) parts smask =
     bnd (dict_pop parts nk) (\<lambda>(nv, p0).
     bnd (if fst nk < start then
            bnd (getitem rec nv 0 (start - fst nk)) (\<lambda>low.
              Inr (dict_set p0 (fst nk, start) low,
                   slice_assign smask (fst nk) start
                     (times (Some (fst nk, start)) (start - fst nk))))
          else Inr (p0, smask)) (\<lambda>(p1, s1).
     bnd (if snd nk > stop then
            bnd (getitem rec nv (stop - fst nk) (snd nk - fst nk)) (\<lambda>high.
              Inr (dict_set p1 (stop, snd nk) high,
                   slice_assign s1 stop (snd nk)
                     (times (Some (stop, snd nk)) (snd nk - stop))))
          else Inr (p1, s1)) (\<lambda>(p2, s2).
       cut_loop rec start stop ks p2 s2)))"

definition cut ::
  "recfn \<Rightarrow> (key \<times> exp) list \<Rightarrow> key option list \<Rightarrow> int \<Rightarrow> int
     \<Rightarrow> error + ((key \<times> exp) list \<times> key option list)" where
  "cut rec parts smask start stop =
     bnd (cut_loop rec start stop (maskset (slice_get smask start stop)) parts smask)
       (\<lambda>(p, s). Inr (p, slice_assign s start stop (times (Some (start, stop)) (stop - start))))"

text \<open>
  The body of \<^verbatim>\<open>comp.__setitem__\<close>: a composite value is written part by part (each
  write is a \<^verbatim>\<open>__setitem__\<close> of its own, with its check); any other value is stored under
  \<^verbatim>\<open>(sta, sto)\<close> and, when the key is new, the range is cut.
\<close>

fun setitem_all :: "recfn \<Rightarrow> int \<Rightarrow> (key \<times> exp) list \<Rightarrow> exp \<Rightarrow> error + exp" where
  "setitem_all rec sta [] self = Inr self"
| "setitem_all rec sta ((vp, vv) # rest) self =
     bnd (setitem rec self (sta + fst vp) (sta + snd vp) vv) (setitem_all rec sta rest)"

definition comp_setitem :: "recfn \<Rightarrow> exp \<Rightarrow> exp \<Rightarrow> int \<Rightarrow> int \<Rightarrow> error + exp" where
  "comp_setitem rec v self sta sto =
     (if size_of v \<noteq> sto - sta then Inl ValueError
      else if is_cmp v then bnd (parts_of v) (\<lambda>vparts. setitem_all rec sta vparts self)
      else
        bnd (parts_of self) (\<lambda>parts. bnd (smask_of self) (\<lambda>smask.
          if dict_has parts (sta, sto) then
            Inr (Comp (size_of self) (sf_of self) (dict_set parts (sta, sto) v) smask)
          else
            bnd (cut rec (dict_set parts (sta, sto) v) smask sta sto) (\<lambda>(p, s).
              Inr (Comp (size_of self) (sf_of self) p s)))))"

text \<open>
  The \<^verbatim>\<open>while\<close> loop of \<^verbatim>\<open>comp.__getitem__\<close>: \<open>b\<close> bits of the result \<open>res\<close> are done and
  \<open>start\<close> is the next bit of the composite.  An unowned bit is skipped; an owned one
  copies the owner's share.  The share \<open>d\<close> is positive whenever \<^verbatim>\<open>s[deb:fin]\<close> returns
  (an empty or reversed range fails every \<^verbatim>\<open>__getitem__\<close>): the last test states it, and
  the loop terminates on it.
\<close>

function getitem_loop ::
  "recfn \<Rightarrow> (key \<times> exp) list \<Rightarrow> key option list \<Rightarrow> int \<Rightarrow> int \<Rightarrow> int \<Rightarrow> int \<Rightarrow> exp
     \<Rightarrow> error + (int \<times> exp)" where
  "getitem_loop rec parts smask stop l b start res =
     (if b < l then
        bnd (list_index smask start) (\<lambda>idx.
          case idx of
            None \<Rightarrow> getitem_loop rec parts smask stop l (b + 1) (start + 1) res
          | Some k \<Rightarrow>
              bnd (dict_get parts k) (\<lambda>s.
                let deb = start - fst k; fin = min (snd k) stop - fst k; d = fin - deb in
                bnd (getitem rec s deb fin) (\<lambda>piece.
                bnd (setitem rec res b (b + d) piece) (\<lambda>res'.
                  if d \<le> 0 then Inl ValueError
                  else getitem_loop rec parts smask stop l (b + d) (start + d) res'))))
      else Inr (start, res))"
  by pat_completeness auto
termination
  by (relation "measure (\<lambda>(rec, parts, smask, stop, l, b, start, res). nat (l - b))") auto

declare getitem_loop.simps [simp del]

text \<open>
  The body of \<^verbatim>\<open>comp.__getitem__\<close>.  When the loop has stored nothing, the method calls
  \<^verbatim>\<open>slicer(self, start, stop - start)\<close> with \<open>start\<close> as the loop left it.
\<close>

definition comp_getitem :: "recfn \<Rightarrow> exp \<Rightarrow> int \<Rightarrow> int \<Rightarrow> error + exp" where
  "comp_getitem rec self start stop =
     bnd (parts_of self) (\<lambda>parts. bnd (smask_of self) (\<lambda>smask.
       if dict_has parts (start, stop) then dict_get parts (start, stop)
       else if start = 0 \<and> stop = size_of self then Inr self
       else
         let l = stop - start in
         bnd (getitem_loop rec parts smask stop l 0 start (set_sf (sf_of self) (comp l)))
           (\<lambda>(start', res).
         bnd (parts_of res) (\<lambda>rparts. bnd (smask_of res) (\<lambda>rsmask.
         bnd (restruct rparts rsmask) (\<lambda>(p, s).
           if length p = 0 then slicer rec self start' (stop - start')
           else if length p = 1 then Inr (snd (hd p))
           else Inr (Comp (size_of res) (sf_of res) p s)))))))"

text \<open>
  \<^verbatim>\<open>exp.__setitem__\<close> (every class but \<^verbatim>\<open>comp\<close>) builds a composite, simplifies it, and
  returns it to no one: the statement \<^verbatim>\<open>x[a:b] = e\<close> leaves \<open>x\<close> as it was.
\<close>

definition exp_setitem :: "recfn \<Rightarrow> exp \<Rightarrow> exp \<Rightarrow> int \<Rightarrow> int \<Rightarrow> error + exp" where
  "exp_setitem rec e self a b =
     (let res = comp (size_of self) in
      bnd (setitem rec res 0 (size_of res) self) (\<lambda>res1.
      bnd (setitem rec res1 a b e) (\<lambda>res2.
      bnd (simplify rec res2 no_kargs) (\<lambda>_. Inr self))))"

text \<open>\<^verbatim>\<open>comp.simplify(**kargs)\<close>: the pair of the value returned and the composite itself.\<close>

fun simplify_parts :: "recfn \<Rightarrow> kargs \<Rightarrow> (key \<times> exp) list \<Rightarrow> error + (key \<times> exp) list" where
  "simplify_parts rec k [] = Inr []"
| "simplify_parts rec k ((nk, nv) # rest) =
     bnd (simplify rec nv k) (\<lambda>nv'.
     bnd (simplify_parts rec k rest) (\<lambda>rest'. Inr ((nk, nv') # rest')))"

definition comp_simplify :: "recfn \<Rightarrow> exp \<Rightarrow> kargs \<Rightarrow> error + (exp \<times> exp)" where
  "comp_simplify rec self k =
     bnd (parts_of self) (\<lambda>parts. bnd (smask_of self) (\<lambda>smask.
     bnd (simplify_parts rec k parts) (\<lambda>parts1.
     bnd (restruct parts1 smask) (\<lambda>(p, s).
       let self' = Comp (size_of self) (sf_of self) p s in
       if dict_has p (0, size_of self) then
         bnd (dict_get p (0, size_of self)) (\<lambda>part. Inr (part, self'))
       else Inr (self', self')))))"

text \<open>\<^verbatim>\<open>composer(parts)\<close>.\<close>

fun composer_loop :: "recfn \<Rightarrow> int \<Rightarrow> exp list \<Rightarrow> exp \<Rightarrow> error + exp" where
  "composer_loop rec pos [] c = Inr c"
| "composer_loop rec pos (x # xs) c =
     bnd (setitem rec c pos (pos + size_of x) x) (composer_loop rec (pos + size_of x) xs)"

definition composer :: "recfn \<Rightarrow> exp list \<Rightarrow> error + exp" where
  "composer rec parts =
     (if length parts = 0 then Inl AssertionError
      else if length parts = 1 then Inr (hd parts)
      else
        let s = sum_list (map size_of parts);
            c = set_sf (sf_of (last parts)) (comp s) in
        bnd (composer_loop rec 0 parts c) (\<lambda>c'. simplify rec c' no_kargs))"

section \<open>Simplification of operator nodes\<close>

text \<open>\<^verbatim>\<open>int.bit_length()\<close>, \<^verbatim>\<open>get_lsb_msb(v)\<close> and \<^verbatim>\<open>ismask(v)\<close>.\<close>

function bit_length_nat :: "nat \<Rightarrow> int" where
  "bit_length_nat n = (if n = 0 then 0 else 1 + bit_length_nat (n div 2))"
  by pat_completeness auto
termination
  by (relation "measure id") auto

definition bit_length :: "int \<Rightarrow> int" where
  "bit_length v = bit_length_nat (nat \<bar>v\<bar>)"

definition get_lsb_msb :: "int \<Rightarrow> int \<times> int" where
  "get_lsb_msb v = (bit_length (v AND (- v)) - 1, bit_length v - 1)"

definition ismask :: "int \<Rightarrow> error + bool" where
  "ismask v =
     (let (i1, i2) = get_lsb_msb v in
      bnd (py_shl 1 (i2 + 1)) (\<lambda>hi. bnd (py_shl 1 i1) (\<lambda>lo.
        Inr (((hi - 1) XOR (lo - 1)) = v))))"

text \<open>\<^verbatim>\<open>range(a, b)\<close> as a list.\<close>

definition range :: "int \<Rightarrow> int \<Rightarrow> int list" where
  "range a b = map (\<lambda>i. a + int i) [0 ..< nat (b - a)]"

text \<open>
  \<^verbatim>\<open>eqn1_helpers(e)\<close> on the fields of the unary node \<open>e\<close> (its operand already
  simplified).  The tables \<^verbatim>\<open>OP_ARITH\<close> and \<^verbatim>\<open>OP_CONDT\<close> are applied without the
  \<^verbatim>\<open>_operator\<close> wrapper.
\<close>

fun notop :: "opsym \<Rightarrow> error + opsym" where
  "notop OP_EQ = Inr OP_NEQ"
| "notop OP_NEQ = Inr OP_EQ"
| "notop OP_LT = Inr OP_GE"
| "notop OP_GT = Inr OP_LE"
| "notop OP_LTU = Inr OP_GEU"
| "notop OP_GEU = Inr OP_LTU"
| "notop OP_LE = Inr OP_GT"
| "notop OP_GE = Inr OP_LT"
| "notop s = Inl KeyError"

fun map_res :: "('a \<Rightarrow> error + 'b) \<Rightarrow> 'a list \<Rightarrow> error + 'b list" where
  "map_res f [] = Inr []"
| "map_res f (x # xs) = bnd (f x) (\<lambda>y. bnd (map_res f xs) (\<lambda>ys. Inr (y # ys)))"

definition eqn1_helpers :: "recfn \<Rightarrow> config \<Rightarrow> exp \<Rightarrow> error + exp" where
  "eqn1_helpers rec c e =
     bnd (opsym_of e) (\<lambda>s. bnd (eqn_r e) (\<lambda>r.
       if is_cst r then operator_call1 rec s r
       else if is_vec r then bnd (l_of r) (\<lambda>xs. bnd (map_res (operator_call1 rec s) xs) vec_init)
       else if is_eqn r then
         bnd (unary_of r) (\<lambda>ru. bnd (opsym_of r) (\<lambda>rs.
           if ru then
             (if op_mult s rs = Some OP_ADD then eqn_r r
              else if op_mult s rs = Some OP_MIN then bnd (eqn_r r) (py_neg rec)
              else Inr e)
           else if s = OP_MIN then
             (if rs = OP_MIN \<or> rs = OP_ADD then
                bnd (eqn_l r) (\<lambda>rl. bnd (the_obj rl) (\<lambda>rl'. bnd (py_neg rec rl') (\<lambda>l.
                bnd (eqn_r r) (\<lambda>rr.
                  case op_mult s rs of
                    None \<Rightarrow> Inl KeyError
                  | Some xop \<Rightarrow> impl_call rec c xop l rr))))
              else Inr e)
           else if s = OP_NOT \<and> op_type rs = 4 then
             bnd (notop rs) (\<lambda>ns. bnd (eqn_l r) (\<lambda>rl. bnd (the_obj rl) (\<lambda>rl'.
             bnd (eqn_r r) (\<lambda>rr. impl_call rec c ns rl' rr))))
           else Inr e))
       else Inr e))"

text \<open>
  \<^verbatim>\<open>eqn2_helpers(e, bitslice, widening)\<close>, in four stages on the fields \<open>(op, l, r)\<close> of
  the binary node; \<open>prop\<close>, \<open>size\<close> and \<open>sf\<close> of the node never change.  A stage
  answers \<open>Inl\<close> of the value returned (with the node as the return leaves it), or
  \<open>Inr\<close> of the updated fields when control falls through.
\<close>

type_synonym fields = "opsym \<times> exp \<times> exp"

text \<open>Lines 2178--2185: operands above the complexity threshold become \<^verbatim>\<open>top\<close>.\<close>

definition eqn2_threshold :: "config \<Rightarrow> fields \<Rightarrow> error + fields" where
  "eqn2_threshold c f =
     (let (s, l, r) = f in
      if complexity c > 0 then
        bnd (complexity_of r) (\<lambda>cr.
          let r' = (if f_gt cr (complexity c) then top (size_of r) else r) in
          bnd (complexity_of l) (\<lambda>cl.
            let l' = (if f_gt cl (complexity c) then top (size_of l) else l) in
            Inr (s, l', r')))
      else Inr f)"

text \<open>Lines 2186--2210: constants of nested \<^verbatim>\<open>+\<close>/\<^verbatim>\<open>-\<close> nodes move to the right.\<close>

definition eqn2_left :: "recfn \<Rightarrow> config \<Rightarrow> fields \<Rightarrow> error + fields" where
  "eqn2_left rec c f =
     (let (s, l, r) = f in
      bnd (if is_eqn l then
             bnd (eqn_r l) (\<lambda>lr. if is_cst lr then bnd (unary_of l) (\<lambda>u. Inr (\<not> u)) else Inr False)
           else Inr False) (\<lambda>b.
        if b then
          bnd (opsym_of l) (\<lambda>ls.
            if op_mult s ls \<noteq> None then
              bnd (eqn_r l) (\<lambda>lr. bnd (eqn_l l) (\<lambda>ll. bnd (the_obj ll) (\<lambda>ll'.
              bnd (operator_call rec c s ll' r) (\<lambda>l'. Inr (ls, l', lr)))))
            else Inr f)
        else Inr f))"

definition eqn2_neg :: "fields \<Rightarrow> error + fields" where
  "eqn2_neg f =
     (let (s, l, r) = f in
      bnd (if is_eqn r then unary_of r else Inr False) (\<lambda>b.
        if b then
          bnd (if s = OP_ADD then bnd (opsym_of r) (\<lambda>rs. Inr (rs = OP_MIN)) else Inr False) (\<lambda>b2.
            if b2 then bnd (eqn_r r) (\<lambda>rr. Inr (OP_MIN, l, rr)) else Inr f)
        else Inr f))"

definition eqn2_right :: "recfn \<Rightarrow> config \<Rightarrow> fields \<Rightarrow> error + fields" where
  "eqn2_right rec c f =
     (let (s, l, r) = f in
      bnd (if is_eqn r then bnd (eqn_r r) (\<lambda>rr. Inr (is_cst rr)) else Inr False) (\<lambda>b.
        if b then
          bnd (opsym_of r) (\<lambda>rs.
            case op_mult s rs of
              None \<Rightarrow> Inr f
            | Some xop \<Rightarrow>
                bnd (eqn_l r) (\<lambda>rl.
                bnd (case rl of None \<Rightarrow> Inl AssertionError | Some x \<Rightarrow> operator_call rec c s l x)
                  (\<lambda>l'.
                bnd (eqn_r r) (\<lambda>rr. Inr (xop, l', rr)))))
        else Inr f))"

text \<open>
  Lines 2211--2302: the right operand is a constant.  The tests \<^verbatim>\<open>e.op.symbol in (OP_LSL)\<close>
  and \<^verbatim>\<open>e.op.symbol in (OP_LSR)\<close> of the bit-slicing branches are substring tests on the
  strings \<^verbatim>\<open>"<<"\<close> and \<^verbatim>\<open>">>"\<close>: they also hold for \<^verbatim>\<open>"<"\<close> and \<^verbatim>\<open>">"\<close>.
\<close>

definition ret :: "exp \<Rightarrow> fields \<Rightarrow> error + ((exp \<times> fields) + fields)" where
  "ret x f = Inr (Inl (x, f))"

definition cont :: "fields \<Rightarrow> error + ((exp \<times> fields) + fields)" where
  "cont f = Inr (Inr f)"

definition returning :: "error + exp \<Rightarrow> fields \<Rightarrow> error + ((exp \<times> fields) + fields)" where
  "returning m f = bnd m (\<lambda>x. ret x f)"

definition mask_field :: "recfn \<Rightarrow> int \<Rightarrow> exp \<Rightarrow> int \<Rightarrow> error + exp" where
  "mask_field rec n l rv =
     (let (i1, i2) = get_lsb_msb rv in
      bnd (cst 0 n) (\<lambda>z.
      bnd (setitem rec (comp n) 0 n z) (\<lambda>c1.
      bnd (getitem rec l i1 (i2 + 1)) (\<lambda>field.
      bnd (setitem rec c1 i1 (i2 + 1) field) (\<lambda>c2.
        simplify rec c2 no_kargs)))))"

definition bitslice_logic :: "recfn \<Rightarrow> config \<Rightarrow> int \<Rightarrow> fields \<Rightarrow> error + exp" where
  "bitslice_logic rec c n f =
     (let (s, l, r) = f in
      bnd (map_res (\<lambda>i. bnd (getitem rec l i (i + 1)) (\<lambda>li.
                         bnd (getitem rec r i (i + 1)) (\<lambda>ri. operator_call rec c s li ri)))
             (range 0 n)) (composer rec))"

definition bitslice_lsl :: "recfn \<Rightarrow> int \<Rightarrow> exp \<Rightarrow> int \<Rightarrow> error + exp" where
  "bitslice_lsl rec n l rv =
     bnd (map_res (\<lambda>i. getitem rec l i (i + 1)) (range 0 (n - rv))) (\<lambda>bits.
       composer rec (times bit0 rv @ bits))"

definition bitslice_lsr :: "recfn \<Rightarrow> int \<Rightarrow> exp \<Rightarrow> int \<Rightarrow> error + exp" where
  "bitslice_lsr rec n l rv =
     bnd (map_res (\<lambda>i. getitem rec l i (i + 1)) (range rv n)) (\<lambda>bits.
       composer rec (bits @ times bit0 rv))"

definition shift_const :: "recfn \<Rightarrow> opsym \<Rightarrow> exp \<Rightarrow> int \<Rightarrow> error + exp" where
  "shift_const rec s l rv =
     (let n = size_of l in
      bnd (cst 0 n) (\<lambda>z.
      bnd (setitem rec (comp n) 0 n z) (\<lambda>c1.
      bnd (if n > rv then
             (if s = OP_LSL then
                bnd (getitem rec l 0 (n - rv)) (\<lambda>x. setitem rec c1 rv n x)
              else if s = OP_LSR then
                bnd (getitem rec l rv n) (\<lambda>x. setitem rec c1 0 (n - rv) x)
              else Inr c1)
           else Inr c1) (\<lambda>c2.
        simplify rec c2 no_kargs))))"

fun comp_logic_loop ::
  "recfn \<Rightarrow> config \<Rightarrow> opsym \<Rightarrow> exp \<Rightarrow> (key \<times> exp) list \<Rightarrow> exp \<Rightarrow> error + exp" where
  "comp_logic_loop rec c s r [] cc = Inr cc"
| "comp_logic_loop rec c s r ((ij, p) # rest) cc =
     bnd (getitem rec r (fst ij) (snd ij)) (\<lambda>ri.
     bnd (operator_call rec c s p ri) (\<lambda>x.
     bnd (setitem rec cc (fst ij) (snd ij) x) (comp_logic_loop rec c s r rest)))"

definition eqn2_const_first ::
  "recfn \<Rightarrow> config \<Rightarrow> kargs \<Rightarrow> int \<Rightarrow> fields \<Rightarrow> int \<Rightarrow> error + ((exp \<times> fields) + fields)" where
  "eqn2_const_first rec c k n f rv =
     (let (s, l, r) = f in
      if rv = 0 then
        (if s \<in> {OP_OR, OP_XOR, OP_ADD, OP_MIN, OP_LSR, OP_LSL, OP_ROR, OP_ROL} then ret l f
         else if s \<in> {OP_AND, OP_MUL, OP_MUL2} then returning (cst 0 n) f
         else if s = OP_EQ \<and> is_ext l then ret bit0 f
         else if s = OP_NEQ \<and> is_ext l then ret bit1 f
         else cont f)
      else if rv = 1 \<and> s \<in> {OP_MUL, OP_MUL2, OP_DIV} then ret l f
      else
        bnd (if s = OP_AND then ismask rv else Inr False) (\<lambda>m.
          if m then returning (mask_field rec n l rv) f
          else if bitslice k \<and> s \<in> {OP_AND, OP_OR, OP_XOR} then
            returning (bitslice_logic rec c n f) f
          else if bitslice k \<and> s \<in> {OP_LSL, OP_LT} then returning (bitslice_lsl rec n l rv) f
          else if bitslice k \<and> s \<in> {OP_LSR, OP_GT} then returning (bitslice_lsr rec n l rv) f
          else if s \<in> {OP_LSL, OP_LSR} then returning (shift_const rec s l rv) f
          else cont f))"

definition eqn2_const_second ::
  "recfn \<Rightarrow> config \<Rightarrow> kargs \<Rightarrow> int \<Rightarrow> int \<Rightarrow> bool \<Rightarrow> fields \<Rightarrow> int
     \<Rightarrow> error + ((exp \<times> fields) + fields)" where
  "eqn2_const_second rec c k prop n sf f rv =
     (let (s, l, r) = f in
      if is_eqn l then
        bnd (opsym_of l) (\<lambda>ls.
          case op_mult s ls of
            Some xop \<Rightarrow>
              bnd (eqn_r l) (\<lambda>lr.
                if is_cst lr then
                  bnd (impl_call rec c xop lr r) (\<lambda>cc.
                  bnd (unary_of l) (\<lambda>lu.
                  bnd (if lu then Inr l else bnd (eqn_l l) the_obj) (\<lambda>l'.
                    ret (Op ls l' cc prop n sf) (ls, l', cc))))
                else ret (Op s l r prop n sf) f)
          | None \<Rightarrow>
              if size_of r = 1 then
                (if s = OP_EQ then
                   (if rv = 1 then ret l f else returning (py_invert rec l) f)
                 else if s = OP_NEQ then returning (py_invert rec l) f
                 else cont f)
              else cont f)
      else if is_ptr l then
        (if s = OP_MIN then returning (ptr_init rec l None (0 - rv)) f
         else if s = OP_ADD then returning (ptr_init rec l None (0 + rv)) f
         else cont f)
      else if is_cmp l then
        (if s \<in> {OP_AND, OP_OR, OP_XOR} then
           returning
             (bnd (parts_of l) (\<lambda>lparts.
              bnd (comp_logic_loop rec c s r lparts (comp (size_of l))) (\<lambda>cc.
                simplify rec cc \<lparr>bitslice = bitslice k, widening = False\<rparr>))) f
         else cont f)
      else if is_cst l then returning (operator_call rec c s l r) f
      else cont f)"

definition eqn2_const ::
  "recfn \<Rightarrow> config \<Rightarrow> kargs \<Rightarrow> int \<Rightarrow> int \<Rightarrow> bool \<Rightarrow> fields
     \<Rightarrow> error + ((exp \<times> fields) + fields)" where
  "eqn2_const rec c k prop n sf f =
     (let (s, l, r) = f in
      if is_cst r then
        bnd (cst_value r) (\<lambda>rv.
        bnd (eqn2_const_first rec c k n f rv) (\<lambda>res.
          case res of
            Inl x \<Rightarrow> Inr (Inl x)
          | Inr f' \<Rightarrow> eqn2_const_second rec c k prop n sf f' rv))
      else cont f)"

text \<open>Lines 2303--2320: vectors distribute, and equal printed forms fold.\<close>

definition eqn2_tail ::
  "recfn \<Rightarrow> config \<Rightarrow> kargs \<Rightarrow> int \<Rightarrow> int \<Rightarrow> bool \<Rightarrow> fields \<Rightarrow> error + exp" where
  "eqn2_tail rec c k prop n sf f =
     (let (s, l, r) = f; kw = \<lparr>bitslice = False, widening = widening k\<rparr> in
      if is_vec l then
        bnd (l_of l) (\<lambda>xs. bnd (map_res (\<lambda>x. operator_call rec c s x r) xs) (\<lambda>ys.
        bnd (vec_init ys) (\<lambda>v. simplify rec v kw)))
      else if is_vec r then
        bnd (l_of r) (\<lambda>xs. bnd (map_res (\<lambda>x. operator_call rec c s l x) xs) (\<lambda>ys.
        bnd (vec_init ys) (\<lambda>v. simplify rec v kw)))
      else
        bnd (str_of c l) (\<lambda>sl. bnd (str_of c r) (\<lambda>sr.
          if sl = sr then
            (if s \<in> {OP_NEQ, OP_LT, OP_GT} then Inr bit0
             else if s \<in> {OP_EQ, OP_LE, OP_GE} then Inr bit1
             else if s = OP_MIN then cst 0 n
             else if s = OP_XOR then cst 0 n
             else if s = OP_AND then Inr l
             else if s = OP_OR then Inr l
             else Inr (Op s l r prop n sf))
          else Inr (Op s l r prop n sf))))"

text \<open>
  \<^verbatim>\<open>eqn2_helpers\<close>: the value returned, and the node \<open>e\<close> with the fields it has then.
  A \<^verbatim>\<open>top\<close> operand collapses the node to \<^verbatim>\<open>top(e.size)\<close>.
\<close>

definition eqn2_helpers ::
  "recfn \<Rightarrow> config \<Rightarrow> kargs \<Rightarrow> opsym \<Rightarrow> exp \<Rightarrow> exp \<Rightarrow> int \<Rightarrow> int \<Rightarrow> bool
     \<Rightarrow> error + (exp \<times> exp)" where
  "eqn2_helpers rec c k s0 l0 r0 prop n sf =
     bnd (eqn2_threshold c (s0, l0, r0)) (\<lambda>(s, l, r).
       if is_top r \<or> is_top l then Inr (top n, Op s l r prop n sf)
       else
         bnd (eqn2_left rec c (s, l, r)) (\<lambda>f1.
         bnd (eqn2_neg f1) (\<lambda>f2.
         bnd (eqn2_right rec c f2) (\<lambda>f3.
         bnd (eqn2_const rec c k prop n sf f3) (\<lambda>res.
           case res of
             Inl (x, (s', l', r')) \<Rightarrow> Inr (x, Op s' l' r' prop n sf)
           | Inr (s', l', r') \<Rightarrow>
               bnd (eqn2_tail rec c k prop n sf (s', l', r')) (\<lambda>x.
                 Inr (x, Op s' l' r' prop n sf)))))))"

section \<open>The \<^verbatim>\<open>simplify\<close> methods\<close>

text \<open>
  Each method returns the pair of its value and of \<^verbatim>\<open>self\<close> with the attributes the
  method has assigned.  \<open>simplify_both\<close> is \<^verbatim>\<open>x.simplify(**kargs)\<close> with both components.
\<close>

definition simplify_both :: "recfn \<Rightarrow> exp \<Rightarrow> kargs \<Rightarrow> error + (exp \<times> exp)" where
  "simplify_both rec e k = rec (Simplify e k)"

text \<open>
  \<^verbatim>\<open>op.simplify\<close>: for an arithmetic or logic node other than \<^verbatim>\<open>/\<close> and \<^verbatim>\<open>%\<close>, a \<^verbatim>\<open>top\<close>
  operand is returned as it is, two constants fold, a constant on the left moves to the
  right and two non-constants are ordered by the printed forms of their symbols
  (\<^verbatim>\<open>l - r\<close> becoming \<^verbatim>\<open>(-r) + l\<close>); then \<^verbatim>\<open>eqn2_helpers\<close>.
\<close>

definition swap_operands ::
  "recfn \<Rightarrow> opsym \<Rightarrow> exp \<Rightarrow> exp \<Rightarrow> error + fields" where
  "swap_operands rec s l r =
     (if s = OP_MIN then bnd (py_neg rec r) (\<lambda>nr. Inr (OP_ADD, nr, l))
      else Inr (s, r, l))"

definition op_simplify ::
  "recfn \<Rightarrow> config \<Rightarrow> kargs \<Rightarrow> opsym \<Rightarrow> exp \<Rightarrow> exp \<Rightarrow> int \<Rightarrow> int \<Rightarrow> bool
     \<Rightarrow> error + (exp \<times> exp)" where
  "op_simplify rec c k s l0 r0 prop n sf =
     bnd (simplify_both rec l0 k) (\<lambda>(l, l0').
     bnd (simplify_both rec r0 k) (\<lambda>(r, r0').
       let self = Op s l0' r0' prop n sf in
       if prop < 4 \<and> s \<notin> {OP_DIV, OP_MOD} then
         (if is_top l then Inr (l, self)
          else if is_top r then Inr (r, self)
          else if is_cst l then
            (if is_cst r then bnd (operator_call rec c s l r) (\<lambda>x. Inr (x, self))
             else bnd (swap_operands rec s l r) (\<lambda>(s', l', r').
                    eqn2_helpers rec c k s' l' r' prop n sf))
          else if \<not> is_cst r then
            bnd (symbols_str c l) (\<lambda>lh. bnd (symbols_str c r) (\<lambda>rh.
              if lh > rh then
                bnd (swap_operands rec s l r) (\<lambda>(s', l', r').
                  eqn2_helpers rec c k s' l' r' prop n sf)
              else eqn2_helpers rec c k s l r prop n sf))
          else eqn2_helpers rec c k s l r prop n sf)
       else eqn2_helpers rec c k s l r prop n sf))"

text \<open>\<^verbatim>\<open>uop.simplify\<close>.\<close>

definition uop_simplify ::
  "recfn \<Rightarrow> config \<Rightarrow> kargs \<Rightarrow> opsym \<Rightarrow> exp \<Rightarrow> int \<Rightarrow> int \<Rightarrow> bool \<Rightarrow> error + (exp \<times> exp)" where
  "uop_simplify rec c k s r0 prop n sf =
     bnd (simplify_both rec r0 k) (\<lambda>(r, r0').
       if is_top r then Inr (r, Uop s r0' prop n sf)
       else bnd (eqn1_helpers rec c (Uop s r prop n sf)) (\<lambda>x. Inr (x, Uop s r prop n sf)))"

text \<open>
  \<^verbatim>\<open>tst.simplify\<close>.  A test such as \<^verbatim>\<open>self.tst == bit1\<close> evaluates the comparison and
  coerces its value to a boolean.
\<close>

definition py_eq_bool :: "recfn \<Rightarrow> config \<Rightarrow> exp \<Rightarrow> exp \<Rightarrow> error + bool" where
  "py_eq_bool rec c a b = bnd (py_binop rec c M_eq a b) (\<lambda>(res, a', b'). Inr (bool_of res))"

definition tst_simplify ::
  "recfn \<Rightarrow> config \<Rightarrow> kargs \<Rightarrow> exp \<Rightarrow> exp \<Rightarrow> exp \<Rightarrow> int \<Rightarrow> bool \<Rightarrow> error + (exp \<times> exp)" where
  "tst_simplify rec c k t0 l0 r0 n sf =
     bnd (simplify rec t0 k) (\<lambda>t.
       if widening k \<or> \<not> is_def t then
         bnd (vec_init [l0, r0]) (\<lambda>v. bnd (simplify rec v no_kargs) (\<lambda>x.
           Inr (x, Tst t l0 r0 n sf)))
       else
         bnd (simplify rec l0 k) (\<lambda>l.
         bnd (py_eq_bool rec c t bit1) (\<lambda>b1.
           if b1 then Inr (l, Tst t l r0 n sf)
           else
             bnd (simplify rec r0 k) (\<lambda>r.
             bnd (py_eq_bool rec c t bit0) (\<lambda>b0.
               if b0 then Inr (r, Tst t l r n sf)
               else
                 bnd (py_eq_bool rec c l r) (\<lambda>beq.
                   if beq then Inr (l, Tst t l r n sf)
                   else Inr (Tst t l r n sf, Tst t l r n sf)))))))"

text \<open>\<^verbatim>\<open>slc.simplify\<close>.\<close>

definition slc_mem :: "recfn \<Rightarrow> exp \<Rightarrow> int \<Rightarrow> int \<Rightarrow> bool \<Rightarrow> error + exp" where
  "slc_mem rec x pos n sf =
     bnd (a_of x) (\<lambda>a. bnd (base_of a) (\<lambda>abase. bnd (seg_of a) (\<lambda>aseg.
     bnd (disp_of a) (\<lambda>adisp.
     bnd (ptr_init rec abase aseg (adisp + pos div 8)) (\<lambda>p.
     bnd (mem_init rec p n None 0 [] 1) (\<lambda>res. Inr (set_sf sf res)))))))"

definition slc_eqn :: "recfn \<Rightarrow> config \<Rightarrow> exp \<Rightarrow> int \<Rightarrow> int \<Rightarrow> error + exp" where
  "slc_eqn rec c x pos n =
     bnd (opsym_of x) (\<lambda>xs.
     bnd (eqn_r x) (\<lambda>xr.
     bnd (getitem rec xr pos (pos + n)) (\<lambda>r.
     bnd (unary_of x) (\<lambda>u.
       if u then operator_call1 rec xs r
       else
         bnd (eqn_l x) (\<lambda>xl. bnd (the_obj xl) (\<lambda>xl'.
         bnd (getitem rec xl' pos (pos + n)) (\<lambda>l. operator_call rec c xs l r)))))))"

definition slc_distributes :: "exp \<Rightarrow> int \<Rightarrow> error + bool" where
  "slc_distributes x pos =
     (if is_eqn x then
        bnd (opsym_of x) (\<lambda>xs.
          Inr (op_type xs = 2 \<or> ((xs = OP_ADD \<or> xs = OP_MIN) \<and> pos = 0)))
      else Inr False)"

definition slc_simplify ::
  "recfn \<Rightarrow> config \<Rightarrow> kargs \<Rightarrow> exp \<Rightarrow> int \<Rightarrow> int \<Rightarrow> bool \<Rightarrow> string option \<Rightarrow> int
     \<Rightarrow> error + (exp \<times> exp)" where
  "slc_simplify rec c k x0 pos n sf ref et =
     bnd (simplify rec x0 k) (\<lambda>x.
       let self = Slc x pos n sf ref et in
       bnd (if \<not> is_def x then Inr (top n)
            else if is_cmp x \<or> is_cst x then
              bnd (getitem rec x pos (pos + n)) (\<lambda>res. Inr (set_sf sf res))
            else if is_mem x \<and> n mod 8 = 0 \<and> pos mod 8 = 0 then slc_mem rec x pos n sf
            else
              bnd (slc_distributes x pos) (\<lambda>b.
                if b then slc_eqn rec c x pos n
                else if is_vec x then
                  bnd (l_of x) (\<lambda>xs.
                  bnd (map_res (\<lambda>y. getitem rec y pos (pos + n)) xs) vec_init)
                else Inr self))
         (\<lambda>res. Inr (res, self)))"

text \<open>
  \<^verbatim>\<open>vec.simplify\<close>.  \<^verbatim>\<open>e in self.l\<close> compares each member with \<open>e\<close> by \<^verbatim>\<open>==\<close>, the member on
  the left, and coerces the result to a boolean (Python's identity shortcut agrees with
  it wherever the printed forms exist).
\<close>

fun py_in :: "recfn \<Rightarrow> config \<Rightarrow> exp \<Rightarrow> exp list \<Rightarrow> error + bool" where
  "py_in rec c e [] = Inr False"
| "py_in rec c e (item # rest) =
     bnd (py_eq_bool rec c item e) (\<lambda>b. if b then Inr True else py_in rec c e rest)"

fun vec_flatten ::
  "recfn \<Rightarrow> exp list \<Rightarrow> exp list \<Rightarrow> bool \<Rightarrow> error + (exp + (exp list \<times> bool))" where
  "vec_flatten rec [] l w = Inr (Inr (l, w))"
| "vec_flatten rec (e # es) l w =
     bnd (simplify rec e no_kargs) (\<lambda>ee.
       if \<not> is_def ee then Inr (Inl ee)
       else if is_vec ee then
         bnd (l_of ee) (\<lambda>xs. vec_flatten rec es (l @ xs) (w \<or> class_of ee = C_vecw))
       else vec_flatten rec es (l @ [ee]) w)"

fun vec_dedup :: "recfn \<Rightarrow> config \<Rightarrow> exp list \<Rightarrow> exp list \<Rightarrow> error + exp list" where
  "vec_dedup rec c [] acc = Inr acc"
| "vec_dedup rec c (e # es) acc =
     bnd (py_in rec c e acc) (\<lambda>b.
       if b then vec_dedup rec c es acc else vec_dedup rec c es (acc @ [e]))"

definition f_sum :: "pyfloat list \<Rightarrow> pyfloat" where
  "f_sum xs = fold (\<lambda>x s. f_add s x) xs (Fin 0)"

definition vec_simplify ::
  "recfn \<Rightarrow> config \<Rightarrow> kargs \<Rightarrow> exp list \<Rightarrow> int \<Rightarrow> bool \<Rightarrow> error + (exp \<times> exp)" where
  "vec_simplify rec c k l0 n sf =
     bnd (vec_flatten rec l0 [] (widening k)) (\<lambda>fl.
       case fl of
         Inl ee \<Rightarrow> Inr (ee, Vec l0 n sf)
       | Inr (l, w) \<Rightarrow>
           bnd (vec_dedup rec c l []) (\<lambda>l'.
             let self = Vec l' n sf in
             if length l' = 1 then Inr (hd l', self)
             else if w then bnd (vecw_init self) (\<lambda>x. Inr (x, self))
             else
               bnd (map_res complexity_of l') (\<lambda>cl.
                 if f_gt (f_sum cl) (complexity c) \<and> complexity c > 0 then Inr (top n, self)
                 else Inr (self, self))))"

text \<open>\<^verbatim>\<open>ptr.simplify\<close> and \<^verbatim>\<open>mem.simplify\<close>.\<close>

definition ptr_simplify ::
  "recfn \<Rightarrow> kargs \<Rightarrow> exp \<Rightarrow> int \<Rightarrow> exp option \<Rightarrow> int \<Rightarrow> bool \<Rightarrow> error + (exp \<times> exp)" where
  "ptr_simplify rec k base0 disp0 seg0 n sf =
     bnd (extract_offset rec base0) (\<lambda>(base, offset).
     bnd (case seg0 of None \<Rightarrow> Inr None
          | Some s \<Rightarrow> bnd (simplify rec s k) (\<lambda>s'. Inr (Some s'))) (\<lambda>seg.
       let disp = (if \<not> is_def base then 0 else disp0 + offset);
           self = Ptr base disp seg n sf in
       Inr (self, self)))"

definition mem_simplify ::
  "recfn \<Rightarrow> kargs \<Rightarrow> exp \<Rightarrow> int \<Rightarrow> bool \<Rightarrow> (exp \<times> exp) list \<Rightarrow> int \<Rightarrow> error + (exp \<times> exp)" where
  "mem_simplify rec k a0 n sf mods endian =
     bnd (simplify_both rec a0 k) (\<lambda>(ares, a).
       let self = Mem a n sf mods endian in
       bnd (base_of a) (\<lambda>base.
         if is_vec base then
           bnd (seg_of a) (\<lambda>seg. bnd (disp_of a) (\<lambda>disp. bnd (l_of base) (\<lambda>xs.
           bnd (map_res (\<lambda>x. mem_init rec x n seg disp mods endian) xs) (\<lambda>ms.
           bnd (vec_init ms) (\<lambda>v.
             if is_def base then Inr (v, self)
             else bnd (vecw_init v) (\<lambda>w. Inr (w, self)))))))
         else Inr (self, self)))"

section \<open>Closing the recursion\<close>

text \<open>
  \<^verbatim>\<open>e.simplify(**kargs)\<close> by the class of \<open>e\<close>: \<^verbatim>\<open>exp.simplify\<close> returns \<^verbatim>\<open>self\<close>, and the
  classes \<^verbatim>\<open>comp\<close>, \<^verbatim>\<open>mem\<close>, \<^verbatim>\<open>ptr\<close>, \<^verbatim>\<open>slc\<close>, \<^verbatim>\<open>tst\<close>, \<^verbatim>\<open>op\<close>, \<^verbatim>\<open>uop\<close>, \<^verbatim>\<open>vec\<close> override it.
\<close>

fun simplify_method :: "recfn \<Rightarrow> config \<Rightarrow> kargs \<Rightarrow> exp \<Rightarrow> error + (exp \<times> exp)" where
  "simplify_method rec c k (Comp n sf parts smask) = comp_simplify rec (Comp n sf parts smask) k"
| "simplify_method rec c k (Mem a n sf mods endian) = mem_simplify rec k a n sf mods endian"
| "simplify_method rec c k (Ptr base disp seg n sf) = ptr_simplify rec k base disp seg n sf"
| "simplify_method rec c k (Slc x pos n sf ref et) = slc_simplify rec c k x pos n sf ref et"
| "simplify_method rec c k (Tst t l r n sf) = tst_simplify rec c k t l r n sf"
| "simplify_method rec c k (Op s l r prop n sf) = op_simplify rec c k s l r prop n sf"
| "simplify_method rec c k (Uop s r prop n sf) = uop_simplify rec c k s r prop n sf"
| "simplify_method rec c k (Vec l n sf) = vec_simplify rec c k l n sf"
| "simplify_method rec c k e = Inr (e, e)"

text \<open>\<^verbatim>\<open>e[i]\<close> and \<^verbatim>\<open>e[i] = v\<close> by the class of \<open>e\<close>; every one is decorated.\<close>

definition getitem_body :: "recfn \<Rightarrow> exp \<Rightarrow> int \<Rightarrow> int \<Rightarrow> error + exp" where
  "getitem_body rec self a b =
     (let k = class_of self in
      if k = C_cst \<or> k = C_sym then cst_getitem self a b
      else if k = C_comp then comp_getitem rec self a b
      else if k = C_mem then mem_getitem rec self a b
      else if k = C_slc then slc_getitem rec self a b
      else if k = C_vec then vec_getitem rec self a b
      else if k = C_vecw then vecw_getitem rec self a b
      else exp_getitem rec self a b)"

definition getitem_method :: "recfn \<Rightarrow> exp \<Rightarrow> pyindex \<Rightarrow> error + (exp \<times> exp)" where
  "getitem_method rec e i =
     checkarg_slice (\<lambda>self a b. bnd (getitem_body rec self a b) (\<lambda>res. Inr (res, self))) e i"

definition setitem_method :: "recfn \<Rightarrow> exp \<Rightarrow> pyindex \<Rightarrow> exp \<Rightarrow> error + (exp \<times> exp)" where
  "setitem_method rec e i v =
     checkarg_slice
       (\<lambda>self a b.
          bnd (if class_of self = C_comp then comp_setitem rec v self a b
               else exp_setitem rec v self a b) (\<lambda>self'. Inr (self', self'))) e i"

fun dispatch :: "recfn \<Rightarrow> config \<Rightarrow> call \<Rightarrow> error + (exp \<times> exp)" where
  "dispatch rec c (Simplify e k) = simplify_method rec c k e"
| "dispatch rec c (Getitem e i) = getitem_method rec e i"
| "dispatch rec c (Setitem e i v) = setitem_method rec e i v"

text \<open>
  \<open>run c n\<close> performs a call with at most \<open>n\<close> nested calls of the three methods;
  beyond that it answers \<open>OutOfFuel\<close>.  \<^verbatim>\<open>oper\<close>, \<^verbatim>\<open>ptr\<close>, \<^verbatim>\<open>slicer\<close> and the others are then
  the functions above at \<open>rec = run c n\<close>.
\<close>

primrec run :: "config \<Rightarrow> nat \<Rightarrow> recfn" where
  "run c 0 = (\<lambda>call. Inl OutOfFuel)"
| "run c (Suc n) = (\<lambda>call. dispatch (run c n) c call)"

section \<open>A configuration\<close>

text \<open>
  The operator symbols as the module spells them (\<^verbatim>\<open>OP_ADD = "+"\<close> ...), and a
  configuration for the evaluations below: the threshold 10000, and icons that print an
  operator as its symbol.
\<close>

fun op_symbol :: "opsym \<Rightarrow> string" where
  "op_symbol OP_ADD = ''+''" | "op_symbol OP_MIN = ''-''" | "op_symbol OP_MUL = ''*''"
| "op_symbol OP_MUL2 = ''**''" | "op_symbol OP_DIV = ''/''" | "op_symbol OP_MOD = ''%''"
| "op_symbol OP_AND = ''&''" | "op_symbol OP_OR = ''|''" | "op_symbol OP_XOR = ''^''"
| "op_symbol OP_NOT = ''~''" | "op_symbol OP_EQ = ''==''" | "op_symbol OP_NEQ = ''!=''"
| "op_symbol OP_LE = ''<=''" | "op_symbol OP_GE = ''>=''" | "op_symbol OP_GEU = ''>=.''"
| "op_symbol OP_LT = ''<''" | "op_symbol OP_LTU = ''<.''" | "op_symbol OP_GT = ''>''"
| "op_symbol OP_LSL = ''<<''" | "op_symbol OP_LSR = ''>>''" | "op_symbol OP_ASR = ''.>>''"
| "op_symbol OP_ROR = ''>>>''" | "op_symbol OP_ROL = ''<<<''"

definition cfg :: config where
  "cfg = \<lparr>complexity = 10000, icon_top = ''T'', icon_bot = ''_'', icon_dots = ''...'',
           icon_op = op_symbol\<rparr>"

text \<open>The registers and nodes of the examples: \<^verbatim>\<open>reg("a", 32)\<close>, \<^verbatim>\<open>reg("b", 8)\<close>, ...\<close>

definition reg :: "string \<Rightarrow> int \<Rightarrow> exp" where
  "reg ref n = Reg ref n False 0 []"

section \<open>Notions used in the statements\<close>

text \<open>\<open>sf_variant x y\<close>: \<open>y\<close> is \<open>x\<close> up to its sign flag.\<close>

definition sf_variant :: "exp \<Rightarrow> exp \<Rightarrow> bool" where
  "sf_variant x y = (\<exists>b. y = set_sf b x)"



section \<open>Constants: values under extension\<close>

lemma mask_of_nat: "mask_of (int N) = Inr (mask N)"
  by (simp add: mask_of_def py_shl_def mask_eq_exp_minus_1)

lemma cst_nat: "cst v (int N) = Inr (Cst (take_bit N v) (int N) (v < 0))"
  by (simp add: cst_def mask_of_nat take_bit_eq_mask)

lemma value_of_unsigned: "value_of v n False = Inr v"
  by (simp add: value_of_def)

lemma xor_mask_take_bit: "- ((take_bit N (x::int)) XOR mask N) - 1 = take_bit N x - 2 ^ N"
proof -
  have d: "take_bit N x AND NOT (mask N) = 0"
    by (rule bit_eqI) (simp add: bit_simps)
  have "- ((take_bit N x) XOR mask N) - 1 = NOT (take_bit N x XOR mask N)"
    by (simp add: not_int_def)
  also have "\<dots> = take_bit N x XOR NOT (mask N)"
    by (rule bit_eqI) (auto simp add: bit_simps)
  also have "\<dots> = take_bit N x OR NOT (mask N)"
    using d by (rule disjunctive_xor_eq_or)
  also have "\<dots> = take_bit N x + NOT (mask N)"
    using d by (simp add: disjunctive_add_eq_or)
  also have "\<dots> = take_bit N x - 2 ^ N"
    by (simp add: minus_exp_eq_not_mask)
  finally show ?thesis .
qed

lemma drop_take_top: "drop_bit m (take_bit (Suc m) (x::int)) = of_bool (bit x m)"
  by (rule bit_eqI) (auto simp add: bit_simps bit_of_bool_iff)

lemma value_of_signed:
  "value_of (take_bit (Suc m) x) (int (Suc m)) True = Inr (signed_take_bit m x)"
proof -
  have m: "mask_of (1 + int m) = Inr (mask (Suc m))"
    using mask_of_nat [of "Suc m"] by (simp add: add.commute)
  show ?thesis
  using xor_mask_take_bit [of "Suc m" x]
  by (simp add: value_of_def py_shr_def drop_take_top m
      signed_take_bit_eq_take_bit_minus)
qed

lemma cst_Inr_nonneg: "cst x n = Inr c \<Longrightarrow> 0 \<le> n"
  by (auto simp add: cst_def mask_of_def py_shl_def split: if_splits)

lemma value_of_cst_roundtrip:
  "- (2 ^ (N - 1)) \<le> v \<Longrightarrow> v < 2 ^ N \<Longrightarrow> (v < 0 \<longrightarrow> 0 < N) \<Longrightarrow>
   value_of (take_bit N v) (int N) (v < 0) = Inr v"
proof (cases "v < 0")
  case False
  assume "v < 2 ^ N"
  with False show ?thesis
    by (simp add: value_of_def take_bit_int_eq_self)
next
  case True
  assume lo: "- (2 ^ (N - 1)) \<le> v" and "v < 0 \<longrightarrow> 0 < N"
  with True obtain m where N: "N = Suc m" by (cases N) auto
  from lo True have "signed_take_bit m v = v"
    by (simp add: N signed_take_bit_int_eq_self)
  with True show ?thesis
    using value_of_signed [of m v] by (simp add: N)
qed

text \<open>
  Claim C6.  Let \<open>c\<close> be a constant of width \<open>n\<close> as \<^verbatim>\<open>cst(x, n)\<close> builds it, its sign
  flag set either way afterwards, and let \<open>p\<close> be its stored bit pattern.  For every
  \<open>k \<ge> 0\<close>, \<^verbatim>\<open>c.zeroextend(n+k)\<close> is a constant of width \<open>n+k\<close> whose \<^verbatim>\<open>value\<close> is \<open>p\<close>
  read as an unsigned integer; and when \<open>n \<ge> 1\<close>, \<^verbatim>\<open>c.signextend(n+k)\<close> is a constant
  of width \<open>n+k\<close> whose \<^verbatim>\<open>value\<close> is \<open>p\<close> read as an \<open>n\<close>-bit two's-complement integer.
\<close>

theorem cst_extend_values:
  assumes k: "0 \<le> k" and c0: "cst x n = Inr c0" and p: "v_of (set_sf b c0) = Inr p"
  shows "(\<exists>zv zsf. cst_zeroextend (set_sf b c0) (n + k) = Inr (Cst zv (n + k) zsf)
            \<and> cst_value (Cst zv (n + k) zsf) = Inr p)
       \<and> (0 < n \<longrightarrow>
           (\<exists>sv ssf. cst_signextend (set_sf b c0) (n + k) = Inr (Cst sv (n + k) ssf)
            \<and> cst_value (Cst sv (n + k) ssf) = Inr (signed_take_bit (nat n - 1) p)))"
proof -
  from c0 have "0 \<le> n" by (rule cst_Inr_nonneg)
  then obtain N where n: "n = int N" by (metis nonneg_int_cases)
  from k obtain K where kk: "k = int K" by (metis nonneg_int_cases)
  have nk: "n + k = int (N + K)" by (simp add: n kk)
  from c0 have c0': "c0 = Cst (take_bit N x) n (x < 0)"
    by (simp add: n cst_nat)
  with p have p': "p = take_bit N x" by simp
  have p0: "0 \<le> p" "p < 2 ^ N" by (simp_all add: p')
  have mx: "max (n + k) n = n + k" using k by simp
  have cnk: "cst v (n + k) = Inr (Cst (take_bit (N + K) v) (n + k) (v < 0))" for v
    by (simp only: nk cst_nat)
  have z: "cst_zeroextend (set_sf b c0) (n + k) = Inr (Cst p (n + k) False)"
  proof -
    have "cst_zeroextend (set_sf b c0) (n + k) = cst p (n + k)"
      by (simp add: cst_zeroextend_def c0' mx p')
    moreover have "take_bit (N + K) p = p" "\<not> p < 0"
      by (simp_all add: p' min_def)
    ultimately show ?thesis by (simp add: cnk)
  qed
  have zv: "cst_value (Cst p (n + k) False) = Inr p"
    by (simp add: value_of_unsigned)
  have s: "\<exists>sv ssf. cst_signextend (set_sf b c0) (n + k) = Inr (Cst sv (n + k) ssf)
            \<and> cst_value (Cst sv (n + k) ssf) = Inr (signed_take_bit (nat n - 1) p)"
    if "0 < n"
  proof -
    from that obtain m where N: "N = Suc m" using n by (cases N) auto
    define v where "v = signed_take_bit m x"
    have rd: "cst_value (set_sf True (set_sf b c0)) = Inr v"
      using value_of_signed [of m x] by (simp add: c0' n N v_def)
    have lo: "- (2 ^ (N + K - 1)) \<le> v"
    proof -
      have "(2::int) ^ m \<le> 2 ^ (m + K)" by (rule power_increasing) simp_all
      moreover have "- (2 ^ m) \<le> v" by (simp add: v_def)
      ultimately have "- (2 ^ (m + K)) \<le> v" by linarith
      then show ?thesis by (simp add: N)
    qed
    have hi: "v < 2 ^ (N + K)"
    proof -
      have "(2::int) ^ m \<le> 2 ^ (N + K)" by (rule power_increasing) (simp_all add: N)
      moreover have "v < 2 ^ m" by (simp add: v_def)
      ultimately show ?thesis by linarith
    qed
    have "cst_signextend (set_sf b c0) (n + k) = Inr (Cst (take_bit (N + K) v) (n + k) (v < 0))"
      using rd by (simp add: cst_signextend_def c0' mx cnk)
    moreover have "cst_value (Cst (take_bit (N + K) v) (n + k) (v < 0)) = Inr v"
      using value_of_cst_roundtrip [OF lo hi] by (simp add: nk N)
    moreover have "signed_take_bit (nat n - 1) p = v"
    proof -
      have "nat n - 1 = m" by (simp add: n N)
      then show ?thesis
        by (simp add: p' N v_def signed_take_bit_take_bit)
    qed
    ultimately show ?thesis by blast
  qed
  from z zv s show ?thesis by blast
qed

text \<open>The theorem at \<^verbatim>\<open>cst(200, 8)\<close> extended to 16 bits: 200 unsigned, -56 signed.\<close>

theorem cst_extend_values_witness:
  "(0::int) \<le> 8 \<and> cst 200 8 = Inr (Cst 200 8 False) \<and> v_of (set_sf False (Cst 200 8 False)) = Inr 200
   \<and> cst_zeroextend (Cst 200 8 False) 16 = Inr (Cst 200 16 False)
   \<and> cst_value (Cst 200 16 False) = Inr 200
   \<and> cst_signextend (Cst 200 8 False) 16 = Inr (Cst 65480 16 True)
   \<and> cst_value (Cst 65480 16 True) = Inr (- 56)"
proof -
  have k: "(0::int) \<le> 8" by simp
  have c: "cst 200 8 = Inr (Cst 200 8 False)"
    by (simp add: cst_def mask_of_def py_shl_def)
  have p: "v_of (set_sf False (Cst 200 8 False)) = Inr 200" by simp
  have z: "cst_zeroextend (Cst 200 8 False) 16 = Inr (Cst 200 16 False)"
    by (simp add: cst_zeroextend_def cst_def mask_of_def py_shl_def)
  have s: "cst_signextend (Cst 200 8 False) 16 = Inr (Cst 65480 16 True)"
    by (simp add: cst_signextend_def value_of_def cst_def mask_of_def py_shl_def py_shr_def drop_bit_eq_div)
  have sv: "cst_value (Cst 65480 16 True) = Inr (- 56)"
    by (simp add: value_of_def mask_of_def py_shl_def py_shr_def drop_bit_eq_div)
  from cst_extend_values [OF k c p] k c p z s sv show ?thesis
    by (simp add: value_of_def)
qed

text \<open>
  A constant of width 0 has no sign bit: \<^verbatim>\<open>signextend\<close> sets the sign flag and reads
  \<^verbatim>\<open>value\<close>, which shifts by \<^verbatim>\<open>self.size - 1 = -1\<close> and raises.
\<close>

theorem cst_signextend_zero_width_counterexample:
  "cst 0 0 = Inr (Cst 0 0 False) \<and> cst_signextend (Cst 0 0 False) (0 + 0) = Inl ValueError"
  by (simp add: cst_def mask_of_def py_shl_def cst_signextend_def value_of_def py_shr_def)

section \<open>Boolean coercion: which expressions are true\<close>

text \<open>
  Claim C7, as the code has it.  Boolean coercion of an expression yields \<^verbatim>\<open>True\<close> exactly
  for a 1-bit constant (or symbol) whose stored bit pattern is 1, and for a vector all of
  whose alternatives coerce to \<^verbatim>\<open>True\<close> (the empty vector among them); for every other
  expression it yields \<^verbatim>\<open>False\<close>.
\<close>

theorem bool_of_true_iff:
  "bool_of e \<longleftrightarrow>
     (\<exists>sf. e = Cst 1 1 sf) \<or> (\<exists>ref sf. e = Sym ref 1 1 sf)
     \<or> (\<exists>l n sf. e = Vec l n sf \<and> (\<forall>x\<in>set l. bool_of x))"
  by (cases e) (auto simp add: list_all_iff)

text \<open>The theorem at the vector \<^verbatim>\<open>vec([bit1, sym("one", 1, 1)])\<close>.\<close>

theorem bool_of_true_iff_witness:
  "bool_of (Vec [Cst 1 1 False, Sym ''one'' 1 1 False] 1 False)
   \<and> bool_of (Cst 1 1 False) \<and> bool_of (Sym ''one'' 1 1 False)
   \<and> \<not> bool_of (Vec [Cst 1 1 False, Cst 1 8 False] 8 False)"
  using bool_of_true_iff [of "Vec [Cst 1 1 False, Sym ''one'' 1 1 False] 1 False"]
    bool_of_true_iff [of "Vec [Cst 1 1 False, Cst 1 8 False] 8 False"]
  by simp

text \<open>
  The claim as stated fails on a vector: \<^verbatim>\<open>vec()\<close> is the node \<open>Vec [] 0 False\<close>, it is
  not a constant, and \<^verbatim>\<open>all([])\<close> is \<^verbatim>\<open>True\<close>; so is \<^verbatim>\<open>vec([bit1, bit1])\<close>.
\<close>

theorem bool_of_vec_counterexample:
  "vec_init [] = Inr (Vec [] 0 False) \<and> \<not> is_cst (Vec [] 0 False) \<and> bool_of (Vec [] 0 False)
   \<and> vec_init [bit1, bit1] = Inr (Vec [bit1, bit1] 1 False) \<and> bool_of (Vec [bit1, bit1] 1 False)"
  by (simp add: vec_init_def is_cst_def et_cst_def et_vec_def bit1_def)

section \<open>Conditional construction: constant conditions\<close>



section \<open>Top absorption and the widening product\<close>

text \<open>
  Claim C1 at the operator \<^verbatim>\<open>**\<close>.  The node \<^verbatim>\<open>op("**", top(8), reg("b", 8))\<close> has width 16
  (\<^verbatim>\<open>op.__init__\<close> doubles it), but \<^verbatim>\<open>op.simplify\<close> returns the \<^verbatim>\<open>top\<close> operand itself, of
  width 8, on either side; for \<^verbatim>\<open>+\<close> the same path gives the width 8 the claim asks for,
  and \<^verbatim>\<open>eqn2_helpers\<close>, reached by a comparison, builds \<^verbatim>\<open>top(e.size)\<close> of width 1.
\<close>

theorem oper_mul2_top_width:
  "op_init OP_MUL2 (top 8) (reg ''b'' 8) = Inr (Op OP_MUL2 (Top 8 False) (reg ''b'' 8) 1 16 False)
   \<and> oper2 (run cfg 3) OP_MUL2 (top 8) (reg ''b'' 8) = Inr (Top 8 False)
   \<and> oper2 (run cfg 3) OP_MUL2 (reg ''b'' 8) (top 8) = Inr (Top 8 False)
   \<and> oper2 (run cfg 3) OP_ADD (top 8) (reg ''b'' 8) = Inr (Top 8 False)
   \<and> oper2 (run cfg 3) OP_EQ (top 8) (reg ''b'' 8) = Inr (Top 1 False)"
  by code_simp

section \<open>Simplifying twice\<close>

text \<open>
  Claim C2 at the node \<^verbatim>\<open>op("-", op("+", a, cst(1,32)), cst(1,32))\<close> with \<^verbatim>\<open>a = reg("a", 32)\<close>,
  which is also what \<^verbatim>\<open>(a + 1) - 1\<close> builds step by step.  \<^verbatim>\<open>eqn2_helpers\<close> merges the two
  constants and returns the node \<^verbatim>\<open>(a-0x0)\<close> without trying the rule for a zero operand
  again; simplifying that node once more returns \<^verbatim>\<open>a\<close>.  The two printed forms differ.
\<close>

theorem simplify_twice_differs:
  "simplify (run cfg 6)
      (Op OP_MIN (Op OP_ADD (reg ''a'' 32) (Cst 1 32 False) 1 32 False) (Cst 1 32 False) 1 32 False)
      no_kargs
     = Inr (Op OP_MIN (reg ''a'' 32) (Cst 0 32 False) 1 32 False)
   \<and> simplify (run cfg 6) (Op OP_MIN (reg ''a'' 32) (Cst 0 32 False) 1 32 False) no_kargs
     = Inr (reg ''a'' 32)
   \<and> str_of cfg (Op OP_MIN (reg ''a'' 32) (Cst 0 32 False) 1 32 False) = Inr ''(a-0x0)''
   \<and> str_of cfg (reg ''a'' 32) = Inr ''a''
   \<and> bnd (oper2 (run cfg 6) OP_ADD (reg ''a'' 32) (Cst 1 32 False))
        (\<lambda>e. oper2 (run cfg 6) OP_MIN e (Cst 1 32 False))
     = Inr (Op OP_MIN (reg ''a'' 32) (Cst 0 32 False) 1 32 False)"
  by code_simp

section \<open>Pointer construction: the folded offset\<close>

text \<open>
  Claim C3 at \<^verbatim>\<open>ptr(((a * 3) + 1) - 1)\<close>.  The operators build the node \<^verbatim>\<open>((a*3)-0x0)\<close>;
  \<^verbatim>\<open>extract_offset\<close> simplifies it to \<^verbatim>\<open>(a*3)\<close>, finds a constant right operand there, and
  reads the symbol \<^verbatim>\<open>-\<close> from the node it was given: the pointer gets the base \<^verbatim>\<open>a\<close> and
  the displacement \<^verbatim>\<open>-3\<close>, where the offsets folded away sum to 0 and the base is \<^verbatim>\<open>a*3\<close>.
\<close>

theorem ptr_offset_from_product:
  "bnd (oper2 (run cfg 8) OP_MUL (reg ''a'' 32) (Cst 3 32 False)) (\<lambda>e1.
   bnd (oper2 (run cfg 8) OP_ADD e1 (Cst 1 32 False)) (\<lambda>e2.
        oper2 (run cfg 8) OP_MIN e2 (Cst 1 32 False)))
     = Inr (Op OP_MIN (Op OP_MUL (reg ''a'' 32) (Cst 3 32 False) 1 32 False)
              (Cst 0 32 False) 1 32 False)
   \<and> ptr_init (run cfg 8)
        (Op OP_MIN (Op OP_MUL (reg ''a'' 32) (Cst 3 32 False) 1 32 False)
           (Cst 0 32 False) 1 32 False) None 0
     = Inr (Ptr (reg ''a'' 32) (- 3) None 32 False)"
  by code_simp

section \<open>Slicing a composite over unowned bits\<close>

text \<open>
  Claim C9 at a composite with unowned bits.  \<^verbatim>\<open>comp(32)[0:8]\<close> is within bounds; the loop
  of \<^verbatim>\<open>comp.__getitem__\<close> skips the eight unowned bits, advancing \<open>start\<close> to 8, and the
  fallback \<^verbatim>\<open>slicer(self, start, stop - start)\<close> then asks for the empty range \<^verbatim>\<open>self[8:8]\<close>,
  which the decorator refuses.  The same happens above a stored part.
\<close>

theorem comp_getitem_gap_raises:
  "(0::int) \<le> 0 \<and> (0::int) < 8 \<and> 8 \<le> size_of (comp 32)
   \<and> run cfg 5 (Getitem (comp 32) (slice 0 8)) = Inl ValueError
   \<and> bnd (setitem (run cfg 5) (comp 32) 0 8 (reg ''al'' 8))
        (\<lambda>c. run cfg 5 (Getitem c (slice 16 24))) = Inl ValueError"
  by code_simp

section \<open>Slicing what is not defined\<close>

text \<open>
  Claim C10.  For every expression \<open>x\<close> that is not defined (\<^verbatim>\<open>etype <= 0\<close>: the void
  expression, \<^verbatim>\<open>top\<close>, a widened vector), every position and every width,
  \<^verbatim>\<open>slicer(x, pos, size)\<close> returns \<^verbatim>\<open>top(size)\<close>, the full-width slice included.
\<close>

theorem slicer_not_defined:
  "\<not> is_def x \<Longrightarrow> slicer rec x pos sz = Inr (Top sz False)"
  by (simp add: slicer_def top_def)

text \<open>The theorem at the void expression of width 32, sliced whole and in part.\<close>

theorem slicer_not_defined_witness:
  "\<not> is_def (Void 32 False)
   \<and> slicer (run cfg 2) (Void 32 False) 0 32 = Inr (Top 32 False)
   \<and> slicer (run cfg 2) (Void 32 False) 8 8 = Inr (Top 8 False)"
  using slicer_not_defined [of "Void 32 False" "run cfg 2" 0 32]
    slicer_not_defined [of "Void 32 False" "run cfg 2" 8 8]
  by (simp add: is_def_def)

section \<open>Operands after an operation\<close>

lemma set_sf_set_sf [simp]: "set_sf b (set_sf b' x) = set_sf b x"
  by (cases x) simp_all

lemma set_sf_same [simp]: "set_sf (sf_of x) x = x"
  by (cases x) simp_all

lemma sf_variant_refl [simp]: "sf_variant x x"
  unfolding sf_variant_def by (rule exI [of _ "sf_of x"]) simp

lemma sf_variant_set [simp]: "sf_variant x (set_sf b x)"
  unfolding sf_variant_def by blast

















section \<open>Restructuring a composite\<close>






lemma dict_get_map_of: "dict_get d k = Inr v \<longleftrightarrow> map_of d k = Some v"
  by (simp add: dict_get_def split: option.splits)





lemma is_cst_Cst [simp]: "is_cst (Cst v n sf)"
  by (simp add: is_cst_def et_cst_def)


















end
